theory Spec2Isabelle
  imports Main
begin

section \<open>The page: DOM regions, inline styles, effect queues, animation frames\<close>

text \<open>
  The widget of \<^verbatim>\<open>assets/layout.js\<close> works on four DOM regions through jQuery:
  the root container (\<^verbatim>\<open>this.$layout\<close>, in the earlier file \<^verbatim>\<open>this.$wrapper\<close>),
  the toggle control (\<^verbatim>\<open>this.$navbtn\<close>), the navigation panel (\<^verbatim>\<open>this.$navbar\<close>)
  and the overlay (\<^verbatim>\<open>this.$overlay\<close>). Each selector is taken to select one element.
\<close>

datatype elem = Layout | Navbtn | Navbar | Overlay

text \<open>
  A value handed to \<^verbatim>\<open>.css()\<close> is a string or a number. jQuery writes a number
  \<open>n\<close> for a length property as \<^verbatim>\<open>n + "px"\<close>; \<open>Px n\<close> stands for that text.
\<close>

datatype css_val = Lit string | Px int

type_synonym style = "string \<Rightarrow> css_val option"

text \<open>
  An entry of an element's effects queue: \<^verbatim>\<open>.animate({prop: target}, duration, easing)\<close>,
  \<^verbatim>\<open>.fadeIn(duration, easing)\<close>, \<^verbatim>\<open>.fadeOut(duration, easing)\<close>. The head of the
  queue is the animation in flight.
\<close>

datatype anim = Animate string int int string | FadeIn int string | FadeOut int string

datatype target = Window | El elem

datatype handler = OnResize | OnToggle

record page =
  window_width :: int
  navbar_outerWidth :: int
  elem_classes :: "elem \<Rightarrow> string set"
  elem_style :: "elem \<Rightarrow> style"
  elem_fx :: "elem \<Rightarrow> anim list"
  raf_pending :: "nat list"
  raf_next :: nat
  listeners :: "(target \<times> string \<times> handler) list"
  dom_writes :: nat

text \<open>Every mutating jQuery call is counted in \<open>dom_writes\<close>.\<close>

definition wrote :: "page \<Rightarrow> page" where
  "wrote p = p\<lparr>dom_writes := Suc (dom_writes p)\<rparr>"

text \<open>
  jQuery reads the argument of \<^verbatim>\<open>.addClass\<close> and \<^verbatim>\<open>.removeClass\<close> as a list of class
  names separated by HTML white space (space, tab, line feed, form feed, carriage
  return): \<open>tokens_from cur s\<close> splits \<open>s\<close>, with \<open>cur\<close> the characters of the name
  being read, latest first.
\<close>

definition html_space :: "char \<Rightarrow> bool" where
  "html_space ch = (ch \<in> {CHR '' '', CHR 0x09, CHR 0x0A, CHR 0x0C, CHR 0x0D})"

fun tokens_from :: "string \<Rightarrow> string \<Rightarrow> string list" where
  "tokens_from cur [] = (if cur = [] then [] else [rev cur])"
| "tokens_from cur (ch # s) =
     (if html_space ch
      then (if cur = [] then tokens_from [] s else rev cur # tokens_from [] s)
      else tokens_from (ch # cur) s)"

definition tokens :: "string \<Rightarrow> string list" where
  "tokens s = tokens_from [] s"

text \<open>
  \<^verbatim>\<open>.addClass(c)\<close> adds every name of \<open>c\<close>, \<^verbatim>\<open>.removeClass(c)\<close> removes every name
  of \<open>c\<close>, and both do nothing when \<open>c\<close> holds no name (the empty string, white space
  only). \<^verbatim>\<open>.toggleClass(c, state)\<close> with a boolean is one or the other.
\<close>

definition addClass :: "elem \<Rightarrow> string \<Rightarrow> page \<Rightarrow> page" where
  "addClass e c p =
     (if tokens c = [] then p
      else wrote (p\<lparr>elem_classes := (elem_classes p)(e := elem_classes p e \<union> set (tokens c))\<rparr>))"

definition removeClass :: "elem \<Rightarrow> string \<Rightarrow> page \<Rightarrow> page" where
  "removeClass e c p =
     (if tokens c = [] then p
      else wrote (p\<lparr>elem_classes := (elem_classes p)(e := elem_classes p e - set (tokens c))\<rparr>))"

text \<open>A class option that holds exactly one class name.\<close>

definition one_token :: "string \<Rightarrow> bool" where
  "one_token c = (tokens c = [c])"

definition toggleClass :: "elem \<Rightarrow> string \<Rightarrow> bool \<Rightarrow> page \<Rightarrow> page" where
  "toggleClass e c state p = (if state then addClass e c p else removeClass e c p)"

text \<open>
  One property assignment of \<^verbatim>\<open>.css({...})\<close>: the empty string removes the inline
  property; the shorthand \<^verbatim>\<open>inset\<close> stands for \<^verbatim>\<open>top\<close>, \<^verbatim>\<open>right\<close>,
  \<^verbatim>\<open>bottom\<close> and \<^verbatim>\<open>left\<close>. jQuery's setter for \<^verbatim>\<open>width\<close> and \<^verbatim>\<open>height\<close> writes a
  negative number as \<^verbatim>\<open>0px\<close>. The object's properties are assigned in the order
  written.
\<close>

fun written_value :: "string \<Rightarrow> css_val \<Rightarrow> css_val" where
  "written_value name (Px n) =
     (if name = ''width'' \<or> name = ''height'' then Px (max 0 n) else Px n)"
| "written_value name (Lit s) = Lit s"

definition set_prop :: "string \<Rightarrow> css_val \<Rightarrow> style \<Rightarrow> style" where
  "set_prop name v st =
     (let v' = (if v = Lit [] then None else Some (written_value name v)) in
      if name = ''inset''
      then st(''top'' := v', ''right'' := v', ''bottom'' := v', ''left'' := v')
      else st(name := v'))"

definition css :: "elem \<Rightarrow> (string \<times> css_val) list \<Rightarrow> page \<Rightarrow> page" where
  "css e props p =
     wrote (p\<lparr>elem_style :=
       (elem_style p)(e := fold (\<lambda>(n, v). set_prop n v) props (elem_style p e))\<rparr>)"

text \<open>
  \<^verbatim>\<open>.hide()\<close> writes the inline \<^verbatim>\<open>display: none\<close>, \<^verbatim>\<open>.show()\<close> takes it away,
  \<^verbatim>\<open>.toggle(state)\<close> is one or the other. The style sheet is taken not to hide the
  regions by itself.
\<close>

definition hide :: "elem \<Rightarrow> page \<Rightarrow> page" where
  "hide e p = wrote (p\<lparr>elem_style := (elem_style p)(e := (elem_style p e)(''display'' \<mapsto> Lit ''none''))\<rparr>)"

definition show_elem :: "elem \<Rightarrow> page \<Rightarrow> page" where
  "show_elem e p = wrote (p\<lparr>elem_style := (elem_style p)(e := (elem_style p e)(''display'' := None))\<rparr>)"

definition toggle_elem :: "elem \<Rightarrow> bool \<Rightarrow> page \<Rightarrow> page" where
  "toggle_elem e state p = (if state then show_elem e p else hide e p)"

subsection \<open>The effects queue\<close>

text \<open>
  What an animation does when it starts running (a fade-in first shows the element) and
  when it completes (a property animation leaves the target value in pixels, a fade-out
  hides the element). The values in between, the inline opacity of a fade among them,
  are not represented. The easing is carried as the name given; jQuery itself defines
  \<^verbatim>\<open>linear\<close> and \<^verbatim>\<open>swing\<close>, other names need a library that defines them, and what
  \<^verbatim>\<open>.animate()\<close> does with a name nothing defines (it throws) is outside this model.
\<close>

fun anim_duration :: "anim \<Rightarrow> int" where
  "anim_duration (Animate prop v d z) = d"
| "anim_duration (FadeIn d z) = d"
| "anim_duration (FadeOut d z) = d"

definition defined_easing :: "string \<Rightarrow> bool" where
  "defined_easing z = (z \<in> {''linear'', ''swing''})"

fun fx_start :: "elem \<Rightarrow> anim \<Rightarrow> page \<Rightarrow> page" where
  "fx_start e (FadeIn d z) p =
     p\<lparr>elem_style := (elem_style p)(e := (elem_style p e)(''display'' := None))\<rparr>"
| "fx_start e (Animate prop v d z) p = p"
| "fx_start e (FadeOut d z) p = p"

fun fx_finish :: "elem \<Rightarrow> anim \<Rightarrow> page \<Rightarrow> page" where
  "fx_finish e (Animate prop v d z) p =
     p\<lparr>elem_style := (elem_style p)(e := (elem_style p e)(prop \<mapsto> Px v))\<rparr>"
| "fx_finish e (FadeIn d z) p = p"
| "fx_finish e (FadeOut d z) p =
     p\<lparr>elem_style := (elem_style p)(e := (elem_style p e)(''display'' \<mapsto> Lit ''none''))\<rparr>"

text \<open>
  The queue of \<open>e\<close> becomes \<open>q\<close>; its head, if any, starts running. An animation whose
  duration is not positive is at its end as soon as it starts: it completes within the
  call and the next entry starts.
\<close>

fun fx_run :: "elem \<Rightarrow> anim list \<Rightarrow> page \<Rightarrow> page" where
  "fx_run e [] p = p\<lparr>elem_fx := (elem_fx p)(e := [])\<rparr>"
| "fx_run e (a # q) p =
     (if anim_duration a \<le> 0
      then fx_run e q (fx_finish e a (fx_start e a p))
      else fx_start e a (p\<lparr>elem_fx := (elem_fx p)(e := a # q)\<rparr>))"

text \<open>
  \<^verbatim>\<open>.stop()\<close> with no argument: the animation in flight is dropped where it stands
  (no jump to its end), the queue is not cleared, and the next entry starts.
\<close>

definition stop :: "elem \<Rightarrow> page \<Rightarrow> page" where
  "stop e p = (case elem_fx p e of [] \<Rightarrow> p | a # q \<Rightarrow> fx_run e q p)"

text \<open>A new animation goes to the end of the queue and starts at once if the queue is empty.\<close>

definition enqueue :: "elem \<Rightarrow> anim \<Rightarrow> page \<Rightarrow> page" where
  "enqueue e a p =
     wrote (case elem_fx p e of
              [] \<Rightarrow> fx_run e [a] p
            | b # q \<Rightarrow> p\<lparr>elem_fx := (elem_fx p)(e := b # q @ [a])\<rparr>)"

definition animate :: "elem \<Rightarrow> string \<times> int \<Rightarrow> int \<Rightarrow> string \<Rightarrow> page \<Rightarrow> page" where
  "animate e pv d z p = enqueue e (Animate (fst pv) (snd pv) d z) p"

definition fadeIn :: "elem \<Rightarrow> int \<Rightarrow> string \<Rightarrow> page \<Rightarrow> page" where
  "fadeIn e d z p = enqueue e (FadeIn d z) p"

definition fadeOut :: "elem \<Rightarrow> int \<Rightarrow> string \<Rightarrow> page \<Rightarrow> page" where
  "fadeOut e d z p = enqueue e (FadeOut d z) p"

text \<open>The animation in flight on \<open>e\<close> reaches its end; the next entry starts.\<close>

definition fx_done :: "elem \<Rightarrow> page \<Rightarrow> page" where
  "fx_done e p = (case elem_fx p e of [] \<Rightarrow> p | a # q \<Rightarrow> fx_run e q (fx_finish e a p))"

text \<open>All queued animations of \<open>e\<close> run to their end.\<close>

definition fx_settle :: "elem \<Rightarrow> page \<Rightarrow> page" where
  "fx_settle e p = (fx_done e ^^ length (elem_fx p e)) p"

text \<open>
  The queue that \<^verbatim>\<open>.stop()\<close> followed by a new animation \<open>a\<close> leaves of a queue
  \<open>q\<close>: the head of \<open>q\<close> is dropped, what follows it runs as far as it completes at
  once, and \<open>a\<close> goes behind the rest or, if nothing is left, starts.
\<close>

definition requeue :: "anim list \<Rightarrow> anim \<Rightarrow> anim list" where
  "requeue q a =
     (let r = dropWhile (\<lambda>b. anim_duration b \<le> 0) (tl q)
      in if r = [] \<and> anim_duration a \<le> 0 then [] else r @ [a])"

subsection \<open>Animation frames\<close>

text \<open>
  \<^verbatim>\<open>requestAnimationFrame(cb)\<close> returns a fresh handle and puts the callback on the
  list of the next frame; the only callback this program registers is
  \<^verbatim>\<open>() => this._resize()\<close>. \<^verbatim>\<open>cancelAnimationFrame(h)\<close> takes the callback of
  handle \<open>h\<close> off the list.
\<close>

definition requestAnimationFrame :: "page \<Rightarrow> nat \<times> page" where
  "requestAnimationFrame p =
     (raf_next p, p\<lparr>raf_pending := raf_pending p @ [raf_next p], raf_next := Suc (raf_next p)\<rparr>)"

definition cancelAnimationFrame :: "nat \<Rightarrow> page \<Rightarrow> page" where
  "cancelAnimationFrame h p = p\<lparr>raf_pending := filter (\<lambda>i. i \<noteq> h) (raf_pending p)\<rparr>"

section \<open>The widget of assets/layout.js (version 1.0.1)\<close>

record class_names =
  desktop :: string
  mobile :: string
  sidebar_class :: string
  active :: string

record options =
  sidebar :: bool
  breakpoint :: int
  width :: int
  duration :: int
  easing :: string
  classes :: class_names

text \<open>
  The instance fields. \<^verbatim>\<open>isMobile\<close>, \<^verbatim>\<open>isShown\<close> and \<^verbatim>\<open>resizeAnimationFrame\<close>
  are never initialised, so each is \<^verbatim>\<open>undefined\<close> (\<open>None\<close>) until first assigned.
\<close>

record widget =
  options :: options
  isMobile :: "bool option"
  isShown :: "bool option"
  resizeAnimationFrame :: "nat option"
  page :: page

text \<open>JavaScript truthiness of the three fields.\<close>

definition truthy :: "bool option \<Rightarrow> bool" where
  "truthy b = (b = Some True)"

definition truthy_handle :: "nat option \<Rightarrow> bool" where
  "truthy_handle h = (case h of None \<Rightarrow> False | Some n \<Rightarrow> n \<noteq> 0)"

definition on_page :: "(page \<Rightarrow> page) \<Rightarrow> widget \<Rightarrow> widget" where
  "on_page f s = s\<lparr>page := f (page s)\<rparr>"

text \<open>The jQuery statements of a method body, run in the order written.\<close>

definition in_order :: "(page \<Rightarrow> page) list \<Rightarrow> widget \<Rightarrow> widget" where
  "in_order fs s = on_page (fold (\<lambda>f. f) fs) s"

text \<open>\<^verbatim>\<open>_open\<close> (lines 154-160) and \<^verbatim>\<open>_close\<close> (lines 173-179).\<close>

definition priv_open :: "widget \<Rightarrow> widget" where
  "priv_open s =
     (let opts = options s in
      in_order
       [addClass Navbtn (active (classes opts)),
        stop Navbar, animate Navbar (''left'', 0) (duration opts) (easing opts),
        stop Overlay, fadeIn Overlay (duration opts) (easing opts)]
       (s\<lparr>isShown := Some True\<rparr>))"

definition priv_close :: "widget \<Rightarrow> widget" where
  "priv_close s =
     (let opts = options s in
      in_order
       [removeClass Navbtn (active (classes opts)),
        stop Navbar, animate Navbar (''left'', - width opts) (duration opts) (easing opts),
        stop Overlay, fadeOut Overlay (duration opts) (easing opts)]
       (s\<lparr>isShown := Some False\<rparr>))"

text \<open>\<^verbatim>\<open>_applyMobile\<close> (217-225), \<^verbatim>\<open>_applyDesktop\<close> (239-247), \<^verbatim>\<open>_applySidebar\<close> (262-270).\<close>

definition priv_applyMobile :: "widget \<Rightarrow> widget" where
  "priv_applyMobile s =
     (let opts = options s; c = classes opts in
      in_order
       [addClass Layout (mobile c),
        removeClass Layout (desktop c),
        removeClass Layout (sidebar_class c),
        css Navbtn [(''display'', Lit '''')],
        css Navbar [(''position'', Lit ''absolute''), (''z-index'', Lit ''1045''),
                    (''inset'', Lit ''0''),
                    (''left'', if truthy (isShown s) then Lit ''0'' else Px (- width opts)),
                    (''width'', Px (width opts))],
        css Overlay [(''position'', Lit ''absolute''), (''z-index'', Lit ''1040''),
                     (''inset'', Lit ''0''),
                     (''display'', if truthy (isShown s) then Lit '''' else Lit ''none'')]] s)"

definition priv_applyDesktop :: "widget \<Rightarrow> widget" where
  "priv_applyDesktop s =
     (let c = classes (options s) in
      in_order
       [addClass Layout (desktop c),
        removeClass Layout (mobile c),
        removeClass Layout (sidebar_class c),
        css Navbtn [(''display'', Lit ''none'')],
        css Navbar [(''position'', Lit ''''), (''z-index'', Lit ''''), (''inset'', Lit ''''),
                    (''width'', Lit '''')],
        css Overlay [(''position'', Lit ''''), (''z-index'', Lit ''''), (''inset'', Lit ''''),
                     (''display'', Lit ''none'')]] s)"

definition priv_applySidebar :: "widget \<Rightarrow> widget" where
  "priv_applySidebar s =
     (let opts = options s; c = classes opts in
      in_order
       [addClass Layout (sidebar_class c),
        removeClass Layout (desktop c),
        removeClass Layout (mobile c),
        css Navbtn [(''display'', Lit ''none'')],
        css Navbar [(''position'', Lit ''''), (''z-index'', Lit ''''), (''inset'', Lit ''''),
                    (''width'', Px (width opts))],
        css Overlay [(''position'', Lit ''''), (''z-index'', Lit ''''), (''inset'', Lit ''''),
                     (''display'', Lit ''none'')]] s)"

text \<open>\<^verbatim>\<open>_resize\<close> (lines 195-203): \<^verbatim>\<open>!==\<close> against the stored field.\<close>

definition priv_resize :: "widget \<Rightarrow> widget" where
  "priv_resize s =
     (let isSidebar = sidebar (options s);
          isMobile' = (window_width (page s) < breakpoint (options s))
      in if isMobile s \<noteq> Some isMobile'
         then (let s' = s\<lparr>isMobile := Some isMobile'\<rparr>
               in if isMobile' then priv_applyMobile s'
                  else if isSidebar then priv_applySidebar s'
                  else priv_applyDesktop s')
         else s)"

text \<open>\<^verbatim>\<open>_onResize\<close> (lines 124-127) and \<^verbatim>\<open>_onToggle\<close> (lines 139-141).\<close>

definition priv_onResize :: "widget \<Rightarrow> widget" where
  "priv_onResize s =
     (let s1 = (if truthy_handle (resizeAnimationFrame s)
                then on_page (cancelAnimationFrame (the (resizeAnimationFrame s))) s else s);
          (h, p) = requestAnimationFrame (page s1)
      in s1\<lparr>resizeAnimationFrame := Some h, page := p\<rparr>)"

definition priv_onToggle :: "widget \<Rightarrow> widget" where
  "priv_onToggle s = (if truthy (isShown s) then priv_close s else priv_open s)"

text \<open>The public methods \<^verbatim>\<open>open\<close> (282-286), \<^verbatim>\<open>close\<close> (298-302), \<^verbatim>\<open>destroy\<close> (314-323).\<close>

definition public_open :: "widget \<Rightarrow> widget" where
  "public_open s = (if truthy (isMobile s) \<and> \<not> truthy (isShown s) then priv_open s else s)"

definition public_close :: "widget \<Rightarrow> widget" where
  "public_close s = (if truthy (isMobile s) \<and> truthy (isShown s) then priv_close s else s)"

definition destroy :: "widget \<Rightarrow> widget" where
  "destroy s =
     (let c = classes (options s) in
      in_order
       [removeClass Layout (desktop c),
        removeClass Layout (mobile c),
        removeClass Layout (sidebar_class c),
        removeClass Navbtn (active c),
        css Navbtn [(''display'', Lit '''')],
        css Navbar [(''position'', Lit ''''), (''z-index'', Lit ''''), (''inset'', Lit ''''),
                    (''width'', Lit '''')],
        css Overlay [(''position'', Lit ''''), (''z-index'', Lit ''''), (''inset'', Lit ''''),
                     (''display'', Lit '''')]] s)"

text \<open>
  \<^verbatim>\<open>this._on(element, {event: handler})\<close> registers the handler;
  \<^verbatim>\<open>_initEvents\<close> (lines 105-111) registers three and evaluates the layout once;
  \<^verbatim>\<open>_create\<close> (lines 79-89) takes the merged options and calls it.
\<close>

definition priv_on :: "target \<Rightarrow> string \<Rightarrow> handler \<Rightarrow> widget \<Rightarrow> widget" where
  "priv_on t ev h s = on_page (\<lambda>p. p\<lparr>listeners := listeners p @ [(t, ev, h)]\<rparr>) s"

definition priv_initEvents :: "widget \<Rightarrow> widget" where
  "priv_initEvents s =
     priv_resize (priv_on (El Overlay) ''click'' OnToggle
       (priv_on (El Navbtn) ''click'' OnToggle
         (priv_on Window ''resize'' OnResize s)))"

definition priv_create :: "options \<Rightarrow> page \<Rightarrow> widget" where
  "priv_create opts p =
     priv_initEvents \<lparr>options = opts, isMobile = None, isShown = None,
                      resizeAnimationFrame = None, page = p\<rparr>"

subsection \<open>Events\<close>

text \<open>
  What can happen to a created widget: the window is resized to a width (the
  \<^verbatim>\<open>resize\<close> event), the browser renders a frame (runs the callbacks requested
  since the last one), a region is clicked, the animation in flight on a region
  completes, or a public method is called. An event runs the handlers registered for
  it, in the order of registration.
\<close>

datatype event =
  Resize int | Frame | Click elem | FxDone elem | CallOpen | CallClose | CallDestroy

definition handle :: "handler \<Rightarrow> widget \<Rightarrow> widget" where
  "handle h s = (case h of OnResize \<Rightarrow> priv_onResize s | OnToggle \<Rightarrow> priv_onToggle s)"

definition fire :: "target \<Rightarrow> string \<Rightarrow> widget \<Rightarrow> widget" where
  "fire t ev s =
     fold (\<lambda>(t', ev', h) s'. if t' = t \<and> ev' = ev then handle h s' else s')
          (listeners (page s)) s"

definition frame :: "widget \<Rightarrow> widget" where
  "frame s =
     fold (\<lambda>_. priv_resize) (raf_pending (page s)) (on_page (\<lambda>p. p\<lparr>raf_pending := []\<rparr>) s)"

fun step :: "event \<Rightarrow> widget \<Rightarrow> widget" where
  "step (Resize w) s = fire Window ''resize'' (on_page (\<lambda>p. p\<lparr>window_width := w\<rparr>) s)"
| "step Frame s = frame s"
| "step (Click e) s = fire (El e) ''click'' s"
| "step (FxDone e) s = on_page (fx_done e) s"
| "step CallOpen s = public_open s"
| "step CallClose s = public_close s"
| "step CallDestroy s = destroy s"

definition run :: "event list \<Rightarrow> widget \<Rightarrow> widget" where
  "run evs s = fold step evs s"

text \<open>
  The page a widget is created on: nothing of the widget's is on it yet (no animation
  on the panel or the overlay, no frame callback, no handler), and frame handles are
  positive, as the browser hands them out.
\<close>

definition pristine :: "page \<Rightarrow> bool" where
  "pristine p =
     (elem_fx p Navbar = [] \<and> elem_fx p Overlay = [] \<and> raf_pending p = []
      \<and> 0 < raf_next p \<and> listeners p = [])"

text \<open>The viewport at width \<open>w\<close>, with no event delivered.\<close>

definition at_width :: "int \<Rightarrow> widget \<Rightarrow> widget" where
  "at_width w s = on_page (\<lambda>p. p\<lparr>window_width := w\<rparr>) s"

text \<open>The defaults of the \<^verbatim>\<open>options\<close> object (lines 50-65) and an empty page.\<close>

definition default_options :: options where
  "default_options =
     \<lparr>sidebar = False, breakpoint = 1200, width = 300, duration = 300, easing = ''linear'',
      classes = \<lparr>desktop = ''layout-desktop'', mobile = ''layout-mobile'',
                 sidebar_class = ''layout-sidebar'', active = ''active''\<rparr>\<rparr>"

definition blank_page :: "int \<Rightarrow> page" where
  "blank_page w =
     \<lparr>window_width = w, navbar_outerWidth = 300, elem_classes = (\<lambda>_. {}),
      elem_style = (\<lambda>_ _. None), elem_fx = (\<lambda>_. []), raf_pending = [], raf_next = 1,
      listeners = [], dom_writes = 0\<rparr>"

section \<open>The widget of the earlier file (version 1.0.0)\<close>

record class_names_v100 =
  layoutDesktop :: string
  layoutMobile :: string
  layoutSidebar :: string
  navbtnActive :: string

record options_v100 =
  breakpoint_v100 :: int
  sidebar_v100 :: bool
  duration_v100 :: int
  easing_v100 :: string
  classes_v100 :: class_names_v100

record widget_v100 =
  options_v100 :: options_v100
  navbarOpen :: bool
  navbarWidth :: int
  isMobile_v100 :: "bool option"
  resizeAnimationFrame_v100 :: "nat option"
  page_v100 :: page

definition on_page_v100 :: "(page \<Rightarrow> page) \<Rightarrow> widget_v100 \<Rightarrow> widget_v100" where
  "on_page_v100 f s = s\<lparr>page_v100 := f (page_v100 s)\<rparr>"

definition in_order_v100 :: "(page \<Rightarrow> page) list \<Rightarrow> widget_v100 \<Rightarrow> widget_v100" where
  "in_order_v100 fs s = on_page_v100 (fold (\<lambda>f. f) fs) s"

text \<open>\<^verbatim>\<open>_openNavbar\<close> (lines 155-160) and \<^verbatim>\<open>_closeNavbar\<close> (lines 170-175).\<close>

definition priv_openNavbar :: "widget_v100 \<Rightarrow> widget_v100" where
  "priv_openNavbar s =
     (let opts = options_v100 s in
      in_order_v100
       [addClass Navbtn (navbtnActive (classes_v100 opts)),
        stop Navbar, animate Navbar (''left'', 0) (duration_v100 opts) (easing_v100 opts),
        stop Overlay, fadeIn Overlay (duration_v100 opts) (easing_v100 opts)]
       (s\<lparr>navbarOpen := True\<rparr>))"

definition priv_closeNavbar :: "widget_v100 \<Rightarrow> widget_v100" where
  "priv_closeNavbar s =
     (let opts = options_v100 s in
      in_order_v100
       [removeClass Navbtn (navbtnActive (classes_v100 opts)),
        stop Navbar,
        animate Navbar (''left'', - navbarWidth s) (duration_v100 opts) (easing_v100 opts),
        stop Overlay, fadeOut Overlay (duration_v100 opts) (easing_v100 opts)]
       (s\<lparr>navbarOpen := False\<rparr>))"

text \<open>\<^verbatim>\<open>_applyMobileLayout\<close> (lines 202-208) and \<^verbatim>\<open>_applyDesktopLayout\<close> (lines 218-224).\<close>

definition priv_applyMobileLayout :: "widget_v100 \<Rightarrow> widget_v100" where
  "priv_applyMobileLayout s =
     (let opts = options_v100 s; c = classes_v100 opts in
      in_order_v100
       [show_elem Navbtn,
        addClass Layout (layoutMobile c),
        removeClass Layout (layoutDesktop c),
        toggleClass Layout (layoutSidebar c) (sidebar_v100 opts),
        css Navbar [(''position'', Lit ''absolute''),
                    (''left'', if navbarOpen s then Lit '''' else Px (- navbarWidth s)),
                    (''width'', Lit '''')],
        toggle_elem Overlay (navbarOpen s)] s)"

definition priv_applyDesktopLayout :: "widget_v100 \<Rightarrow> widget_v100" where
  "priv_applyDesktopLayout s =
     (let opts = options_v100 s; c = classes_v100 opts in
      in_order_v100
       [hide Navbtn,
        addClass Layout (layoutDesktop c),
        removeClass Layout (layoutMobile c),
        toggleClass Layout (layoutSidebar c) (sidebar_v100 opts),
        css Navbar [(''position'', Lit ''''), (''left'', Lit ''''),
                    (''width'', if sidebar_v100 opts then Lit '''' else Lit ''100%'')],
        hide Overlay] s)"

text \<open>\<^verbatim>\<open>_resizeLayout\<close> (lines 185-192).\<close>

definition priv_resizeLayout :: "widget_v100 \<Rightarrow> widget_v100" where
  "priv_resizeLayout s =
     (let isMobile' = (window_width (page_v100 s) < breakpoint_v100 (options_v100 s))
      in if isMobile_v100 s \<noteq> Some isMobile'
         then (let s' = s\<lparr>isMobile_v100 := Some isMobile'\<rparr>
               in if isMobile' then priv_applyMobileLayout s' else priv_applyDesktopLayout s')
         else s)"

text \<open>\<^verbatim>\<open>_onResize\<close> (lines 129-132) and \<^verbatim>\<open>_onToggle\<close> (lines 143-145).\<close>

definition priv_onResize_v100 :: "widget_v100 \<Rightarrow> widget_v100" where
  "priv_onResize_v100 s =
     (let s1 = (if truthy_handle (resizeAnimationFrame_v100 s)
                then on_page_v100 (cancelAnimationFrame (the (resizeAnimationFrame_v100 s))) s
                else s);
          (h, p) = requestAnimationFrame (page_v100 s1)
      in s1\<lparr>resizeAnimationFrame_v100 := Some h, page_v100 := p\<rparr>)"

definition priv_onToggle_v100 :: "widget_v100 \<Rightarrow> widget_v100" where
  "priv_onToggle_v100 s = (if navbarOpen s then priv_closeNavbar s else priv_openNavbar s)"

text \<open>\<^verbatim>\<open>_initWidget\<close> (lines 98-103), \<^verbatim>\<open>_initEvents\<close> (113-117), \<^verbatim>\<open>_create\<close> (77-88).\<close>

definition priv_initWidget :: "widget_v100 \<Rightarrow> widget_v100" where
  "priv_initWidget s =
     priv_resizeLayout
       (s\<lparr>navbarOpen := False, navbarWidth := navbar_outerWidth (page_v100 s)\<rparr>)"

definition priv_on_v100 :: "target \<Rightarrow> string \<Rightarrow> handler \<Rightarrow> widget_v100 \<Rightarrow> widget_v100" where
  "priv_on_v100 t ev h s = on_page_v100 (\<lambda>p. p\<lparr>listeners := listeners p @ [(t, ev, h)]\<rparr>) s"

definition priv_initEvents_v100 :: "widget_v100 \<Rightarrow> widget_v100" where
  "priv_initEvents_v100 s =
     priv_on_v100 (El Overlay) ''click'' OnToggle
       (priv_on_v100 (El Navbtn) ''click'' OnToggle
         (priv_on_v100 Window ''resize'' OnResize s))"

definition priv_create_v100 :: "options_v100 \<Rightarrow> page \<Rightarrow> widget_v100" where
  "priv_create_v100 opts p =
     priv_initEvents_v100
       (priv_initWidget
         \<lparr>options_v100 = opts, navbarOpen = False, navbarWidth = 0, isMobile_v100 = None,
          resizeAnimationFrame_v100 = None, page_v100 = p\<rparr>)"

datatype event_v100 = Resize_v100 int | Frame_v100 | Click_v100 elem | FxDone_v100 elem

definition handle_v100 :: "handler \<Rightarrow> widget_v100 \<Rightarrow> widget_v100" where
  "handle_v100 h s =
     (case h of OnResize \<Rightarrow> priv_onResize_v100 s | OnToggle \<Rightarrow> priv_onToggle_v100 s)"

definition fire_v100 :: "target \<Rightarrow> string \<Rightarrow> widget_v100 \<Rightarrow> widget_v100" where
  "fire_v100 t ev s =
     fold (\<lambda>(t', ev', h) s'. if t' = t \<and> ev' = ev then handle_v100 h s' else s')
          (listeners (page_v100 s)) s"

definition frame_v100 :: "widget_v100 \<Rightarrow> widget_v100" where
  "frame_v100 s =
     fold (\<lambda>_. priv_resizeLayout) (raf_pending (page_v100 s))
          (on_page_v100 (\<lambda>p. p\<lparr>raf_pending := []\<rparr>) s)"

fun step_v100 :: "event_v100 \<Rightarrow> widget_v100 \<Rightarrow> widget_v100" where
  "step_v100 (Resize_v100 w) s =
     fire_v100 Window ''resize'' (on_page_v100 (\<lambda>p. p\<lparr>window_width := w\<rparr>) s)"
| "step_v100 Frame_v100 s = frame_v100 s"
| "step_v100 (Click_v100 e) s = fire_v100 (El e) ''click'' s"
| "step_v100 (FxDone_v100 e) s = on_page_v100 (fx_done e) s"

definition run_v100 :: "event_v100 list \<Rightarrow> widget_v100 \<Rightarrow> widget_v100" where
  "run_v100 evs s = fold step_v100 evs s"

definition at_width_v100 :: "int \<Rightarrow> widget_v100 \<Rightarrow> widget_v100" where
  "at_width_v100 w s = on_page_v100 (\<lambda>p. p\<lparr>window_width := w\<rparr>) s"

definition default_options_v100 :: options_v100 where
  "default_options_v100 =
     \<lparr>breakpoint_v100 = 1200, sidebar_v100 = False, duration_v100 = 300,
      easing_v100 = ''linear'',
      classes_v100 = \<lparr>layoutDesktop = ''layout-desktop'', layoutMobile = ''layout-mobile'',
                      layoutSidebar = ''layout-sidebar'', navbtnActive = ''active''\<rparr>\<rparr>"

subsection \<open>What holds of every state a created widget can reach\<close>

text \<open>
  The three handlers of \<^verbatim>\<open>_initEvents\<close>; at most one frame callback is pending, and
  it is the one whose handle the widget holds; the panel and the overlay each have at
  most one animation queued, the one of the latest open or close.
\<close>

definition widget_listeners :: "(target \<times> string \<times> handler) list" where
  "widget_listeners =
     [(Window, ''resize'', OnResize), (El Navbtn, ''click'', OnToggle),
      (El Overlay, ''click'', OnToggle)]"

definition raf_ok :: "nat option \<Rightarrow> page \<Rightarrow> bool" where
  "raf_ok h p =
     (0 < raf_next p
      \<and> (case raf_pending p of [] \<Rightarrow> True | i # q \<Rightarrow> q = [] \<and> i \<noteq> 0 \<and> h = Some i))"

definition panel_anim :: "widget \<Rightarrow> anim" where
  "panel_anim s =
     Animate ''left'' (if truthy (isShown s) then 0 else - width (options s))
       (duration (options s)) (easing (options s))"

definition overlay_anim :: "widget \<Rightarrow> anim" where
  "overlay_anim s =
     (if truthy (isShown s) then FadeIn (duration (options s)) (easing (options s))
      else FadeOut (duration (options s)) (easing (options s)))"

definition fx_ok :: "widget \<Rightarrow> bool" where
  "fx_ok s =
     (elem_fx (page s) Navbar \<in> {[], [panel_anim s]}
      \<and> elem_fx (page s) Overlay \<in> {[], [overlay_anim s]})"

definition consistent :: "options \<Rightarrow> widget \<Rightarrow> bool" where
  "consistent opts s =
     (options s = opts \<and> listeners (page s) = widget_listeners
      \<and> raf_ok (resizeAnimationFrame s) (page s) \<and> fx_ok s)"

definition panel_anim_v100 :: "widget_v100 \<Rightarrow> anim" where
  "panel_anim_v100 s =
     Animate ''left'' (if navbarOpen s then 0 else - navbarWidth s)
       (duration_v100 (options_v100 s)) (easing_v100 (options_v100 s))"

definition overlay_anim_v100 :: "widget_v100 \<Rightarrow> anim" where
  "overlay_anim_v100 s =
     (if navbarOpen s then FadeIn (duration_v100 (options_v100 s)) (easing_v100 (options_v100 s))
      else FadeOut (duration_v100 (options_v100 s)) (easing_v100 (options_v100 s)))"

definition fx_ok_v100 :: "widget_v100 \<Rightarrow> bool" where
  "fx_ok_v100 s =
     (elem_fx (page_v100 s) Navbar \<in> {[], [panel_anim_v100 s]}
      \<and> elem_fx (page_v100 s) Overlay \<in> {[], [overlay_anim_v100 s]})"

definition consistent_v100 :: "options_v100 \<Rightarrow> widget_v100 \<Rightarrow> bool" where
  "consistent_v100 opts s =
     (options_v100 s = opts \<and> listeners (page_v100 s) = widget_listeners
      \<and> raf_ok (resizeAnimationFrame_v100 s) (page_v100 s) \<and> fx_ok_v100 s)"

subsection \<open>The presentation classes on the root\<close>

text \<open>
  Which of the three presentation classes (mobile, desktop, sidebar) the root carries,
  and the configurations whose three class options are three different class names,
  each a single name.
\<close>

definition presentation_classes :: "widget \<Rightarrow> string list" where
  "presentation_classes s =
     (let c = classes (options s) in
      filter (\<lambda>n. n \<in> elem_classes (page s) Layout) [mobile c, desktop c, sidebar_class c])"

definition well_named :: "class_names \<Rightarrow> bool" where
  "well_named c =
     (one_token (mobile c) \<and> one_token (desktop c) \<and> one_token (sidebar_class c)
      \<and> distinct [mobile c, desktop c, sidebar_class c])"

definition presentation_classes_v100 :: "widget_v100 \<Rightarrow> string list" where
  "presentation_classes_v100 s =
     (let c = classes_v100 (options_v100 s) in
      filter (\<lambda>n. n \<in> elem_classes (page_v100 s) Layout)
        [layoutMobile c, layoutDesktop c, layoutSidebar c])"

definition well_named_v100 :: "class_names_v100 \<Rightarrow> bool" where
  "well_named_v100 c =
     (one_token (layoutMobile c) \<and> one_token (layoutDesktop c) \<and> one_token (layoutSidebar c)
      \<and> distinct [layoutMobile c, layoutDesktop c, layoutSidebar c])"

text \<open>
  The sidebar option is a single class name that is not among the names of the other two
  options, so that \<^verbatim>\<open>_applySidebar\<close> does not remove it again.
\<close>

definition sidebar_named :: "class_names \<Rightarrow> bool" where
  "sidebar_named c =
     (one_token (sidebar_class c) \<and> sidebar_class c \<notin> set (tokens (desktop c))
      \<and> sidebar_class c \<notin> set (tokens (mobile c)))"

text \<open>The events that only concern the viewport.\<close>

fun viewport_event :: "event \<Rightarrow> bool" where
  "viewport_event (Resize w) = True"
| "viewport_event Frame = True"
| "viewport_event (Click e) = False"
| "viewport_event (FxDone e) = False"
| "viewport_event CallOpen = False"
| "viewport_event CallClose = False"
| "viewport_event CallDestroy = False"

text \<open>
  The instances as \<^verbatim>\<open>_create\<close> finds them, before any method has run: the fields
  the methods read are still undefined.
\<close>

definition new_widget :: "options \<Rightarrow> page \<Rightarrow> widget" where
  "new_widget opts p =
     \<lparr>options = opts, isMobile = None, isShown = None, resizeAnimationFrame = None, page = p\<rparr>"

definition new_widget_v100 :: "options_v100 \<Rightarrow> page \<Rightarrow> widget_v100" where
  "new_widget_v100 opts p =
     \<lparr>options_v100 = opts, navbarOpen = False, navbarWidth = 0, isMobile_v100 = None,
      resizeAnimationFrame_v100 = None, page_v100 = p\<rparr>"

text \<open>The default options with the sidebar option set.\<close>

definition sidebar_options :: options where
  "sidebar_options = default_options\<lparr>sidebar := True\<rparr>"

definition sidebar_options_v100 :: options_v100 where
  "sidebar_options_v100 = default_options_v100\<lparr>sidebar_v100 := True\<rparr>"

section \<open>Properties\<close>

subsection \<open>What each jQuery call leaves alone\<close>

lemmas jq_defs = wrote_def addClass_def removeClass_def toggleClass_def set_prop_def css_def
  hide_def show_elem_def toggle_elem_def

lemmas apply_defs = priv_applyMobile_def priv_applyDesktop_def priv_applySidebar_def
  in_order_def on_page_def Let_def

lemma fx_start_frame [simp]:
  "window_width (fx_start e a p) = window_width p"
  "navbar_outerWidth (fx_start e a p) = navbar_outerWidth p"
  "elem_classes (fx_start e a p) = elem_classes p"
  "elem_fx (fx_start e a p) = elem_fx p"
  "raf_pending (fx_start e a p) = raf_pending p"
  "raf_next (fx_start e a p) = raf_next p"
  "listeners (fx_start e a p) = listeners p"
  "dom_writes (fx_start e a p) = dom_writes p"
  "e' \<noteq> e \<Longrightarrow> elem_style (fx_start e a p) e' = elem_style p e'"
  by (cases a; simp)+

lemma fx_finish_frame [simp]:
  "window_width (fx_finish e a p) = window_width p"
  "navbar_outerWidth (fx_finish e a p) = navbar_outerWidth p"
  "elem_classes (fx_finish e a p) = elem_classes p"
  "elem_fx (fx_finish e a p) = elem_fx p"
  "raf_pending (fx_finish e a p) = raf_pending p"
  "raf_next (fx_finish e a p) = raf_next p"
  "listeners (fx_finish e a p) = listeners p"
  "dom_writes (fx_finish e a p) = dom_writes p"
  "e' \<noteq> e \<Longrightarrow> elem_style (fx_finish e a p) e' = elem_style p e'"
  by (cases a; simp)+

lemma fx_run_frame [simp]:
  "window_width (fx_run e q p) = window_width p"
  "navbar_outerWidth (fx_run e q p) = navbar_outerWidth p"
  "elem_classes (fx_run e q p) = elem_classes p"
  "elem_fx (fx_run e q p) = (elem_fx p)(e := dropWhile (\<lambda>a. anim_duration a \<le> 0) q)"
  "raf_pending (fx_run e q p) = raf_pending p"
  "raf_next (fx_run e q p) = raf_next p"
  "listeners (fx_run e q p) = listeners p"
  "dom_writes (fx_run e q p) = dom_writes p"
  "e' \<noteq> e \<Longrightarrow> elem_style (fx_run e q p) e' = elem_style p e'"
  by (induction q arbitrary: p; simp)+

lemma stop_frame [simp]:
  "window_width (stop e p) = window_width p"
  "navbar_outerWidth (stop e p) = navbar_outerWidth p"
  "elem_classes (stop e p) = elem_classes p"
  "elem_fx (stop e p)
     = (elem_fx p)(e := dropWhile (\<lambda>a. anim_duration a \<le> 0) (tl (elem_fx p e)))"
  "raf_pending (stop e p) = raf_pending p"
  "raf_next (stop e p) = raf_next p"
  "listeners (stop e p) = listeners p"
  "dom_writes (stop e p) = dom_writes p"
  "e' \<noteq> e \<Longrightarrow> elem_style (stop e p) e' = elem_style p e'"
  by (auto simp: stop_def split: list.splits)

lemma enqueue_frame [simp]:
  "window_width (enqueue e a p) = window_width p"
  "navbar_outerWidth (enqueue e a p) = navbar_outerWidth p"
  "elem_classes (enqueue e a p) = elem_classes p"
  "elem_fx (enqueue e a p)
     = (elem_fx p)(e := (if elem_fx p e = [] \<and> anim_duration a \<le> 0 then []
                         else elem_fx p e @ [a]))"
  "raf_pending (enqueue e a p) = raf_pending p"
  "raf_next (enqueue e a p) = raf_next p"
  "listeners (enqueue e a p) = listeners p"
  "dom_writes (enqueue e a p) = Suc (dom_writes p)"
  "e' \<noteq> e \<Longrightarrow> elem_style (enqueue e a p) e' = elem_style p e'"
  by (auto simp: enqueue_def wrote_def split: list.splits)

lemma fx_done_frame [simp]:
  "window_width (fx_done e p) = window_width p"
  "navbar_outerWidth (fx_done e p) = navbar_outerWidth p"
  "elem_classes (fx_done e p) = elem_classes p"
  "elem_fx (fx_done e p)
     = (elem_fx p)(e := dropWhile (\<lambda>a. anim_duration a \<le> 0) (tl (elem_fx p e)))"
  "raf_pending (fx_done e p) = raf_pending p"
  "raf_next (fx_done e p) = raf_next p"
  "listeners (fx_done e p) = listeners p"
  "dom_writes (fx_done e p) = dom_writes p"
  "e' \<noteq> e \<Longrightarrow> elem_style (fx_done e p) e' = elem_style p e'"
  by (auto simp: fx_done_def split: list.splits)

lemma addClass_frame [simp]:
  "window_width (addClass e c p) = window_width p"
  "navbar_outerWidth (addClass e c p) = navbar_outerWidth p"
  "elem_fx (addClass e c p) = elem_fx p"
  "raf_pending (addClass e c p) = raf_pending p"
  "raf_next (addClass e c p) = raf_next p"
  "listeners (addClass e c p) = listeners p"
  by (simp_all add: jq_defs)

lemma removeClass_frame [simp]:
  "window_width (removeClass e c p) = window_width p"
  "navbar_outerWidth (removeClass e c p) = navbar_outerWidth p"
  "elem_fx (removeClass e c p) = elem_fx p"
  "raf_pending (removeClass e c p) = raf_pending p"
  "raf_next (removeClass e c p) = raf_next p"
  "listeners (removeClass e c p) = listeners p"
  by (simp_all add: jq_defs)

lemma toggleClass_frame [simp]:
  "window_width (toggleClass e c b p) = window_width p"
  "navbar_outerWidth (toggleClass e c b p) = navbar_outerWidth p"
  "elem_fx (toggleClass e c b p) = elem_fx p"
  "raf_pending (toggleClass e c b p) = raf_pending p"
  "raf_next (toggleClass e c b p) = raf_next p"
  "listeners (toggleClass e c b p) = listeners p"
  by (simp_all add: jq_defs)

lemma css_frame [simp]:
  "window_width (css e props p) = window_width p"
  "navbar_outerWidth (css e props p) = navbar_outerWidth p"
  "elem_fx (css e props p) = elem_fx p"
  "raf_pending (css e props p) = raf_pending p"
  "raf_next (css e props p) = raf_next p"
  "listeners (css e props p) = listeners p"
  by (simp_all add: jq_defs)

lemma hide_frame [simp]:
  "window_width (hide e p) = window_width p"
  "navbar_outerWidth (hide e p) = navbar_outerWidth p"
  "elem_fx (hide e p) = elem_fx p"
  "raf_pending (hide e p) = raf_pending p"
  "raf_next (hide e p) = raf_next p"
  "listeners (hide e p) = listeners p"
  by (simp_all add: jq_defs)

lemma show_elem_frame [simp]:
  "window_width (show_elem e p) = window_width p"
  "navbar_outerWidth (show_elem e p) = navbar_outerWidth p"
  "elem_fx (show_elem e p) = elem_fx p"
  "raf_pending (show_elem e p) = raf_pending p"
  "raf_next (show_elem e p) = raf_next p"
  "listeners (show_elem e p) = listeners p"
  by (simp_all add: jq_defs)

lemma toggle_elem_frame [simp]:
  "window_width (toggle_elem e b p) = window_width p"
  "navbar_outerWidth (toggle_elem e b p) = navbar_outerWidth p"
  "elem_fx (toggle_elem e b p) = elem_fx p"
  "raf_pending (toggle_elem e b p) = raf_pending p"
  "raf_next (toggle_elem e b p) = raf_next p"
  "listeners (toggle_elem e b p) = listeners p"
  by (simp_all add: jq_defs)

subsection \<open>Reachable states are consistent (assets/layout.js)\<close>

lemmas fx_defs = animate_def fadeIn_def fadeOut_def

lemma fire_resize:
  "listeners (page s) = widget_listeners \<Longrightarrow> fire Window ''resize'' s = priv_onResize s"
  by (simp add: fire_def widget_listeners_def handle_def)

lemma fire_click:
  "listeners (page s) = widget_listeners \<Longrightarrow>
   fire (El e) ''click'' s = (if e = Navbtn \<or> e = Overlay then priv_onToggle s else s)"
  by (cases e) (simp_all add: fire_def widget_listeners_def handle_def)

lemma frame_cases:
  "raf_ok h (page s) \<Longrightarrow>
   frame s = (if raf_pending (page s) = [] then s
              else priv_resize (on_page (\<lambda>p. p\<lparr>raf_pending := []\<rparr>) s))"
  by (auto simp: frame_def raf_ok_def on_page_def split: list.splits)

lemmas inv_defs = consistent_def raf_ok_def fx_ok_def panel_anim_def overlay_anim_def

lemma priv_applyMobile_fields [simp]:
  "options (priv_applyMobile s) = options s"
  "isShown (priv_applyMobile s) = isShown s"
  "resizeAnimationFrame (priv_applyMobile s) = resizeAnimationFrame s"
  "window_width (page (priv_applyMobile s)) = window_width (page s)"
  "navbar_outerWidth (page (priv_applyMobile s)) = navbar_outerWidth (page s)"
  "elem_fx (page (priv_applyMobile s)) = elem_fx (page s)"
  "raf_pending (page (priv_applyMobile s)) = raf_pending (page s)"
  "raf_next (page (priv_applyMobile s)) = raf_next (page s)"
  "listeners (page (priv_applyMobile s)) = listeners (page s)"
  by (simp_all add: priv_applyMobile_def in_order_def on_page_def Let_def)

lemma priv_applyDesktop_fields [simp]:
  "options (priv_applyDesktop s) = options s"
  "isShown (priv_applyDesktop s) = isShown s"
  "resizeAnimationFrame (priv_applyDesktop s) = resizeAnimationFrame s"
  "window_width (page (priv_applyDesktop s)) = window_width (page s)"
  "navbar_outerWidth (page (priv_applyDesktop s)) = navbar_outerWidth (page s)"
  "elem_fx (page (priv_applyDesktop s)) = elem_fx (page s)"
  "raf_pending (page (priv_applyDesktop s)) = raf_pending (page s)"
  "raf_next (page (priv_applyDesktop s)) = raf_next (page s)"
  "listeners (page (priv_applyDesktop s)) = listeners (page s)"
  by (simp_all add: priv_applyDesktop_def in_order_def on_page_def Let_def)

lemma priv_applySidebar_fields [simp]:
  "options (priv_applySidebar s) = options s"
  "isShown (priv_applySidebar s) = isShown s"
  "resizeAnimationFrame (priv_applySidebar s) = resizeAnimationFrame s"
  "window_width (page (priv_applySidebar s)) = window_width (page s)"
  "navbar_outerWidth (page (priv_applySidebar s)) = navbar_outerWidth (page s)"
  "elem_fx (page (priv_applySidebar s)) = elem_fx (page s)"
  "raf_pending (page (priv_applySidebar s)) = raf_pending (page s)"
  "raf_next (page (priv_applySidebar s)) = raf_next (page s)"
  "listeners (page (priv_applySidebar s)) = listeners (page s)"
  by (simp_all add: priv_applySidebar_def in_order_def on_page_def Let_def)

lemma destroy_fields [simp]:
  "options (destroy s) = options s"
  "isShown (destroy s) = isShown s"
  "resizeAnimationFrame (destroy s) = resizeAnimationFrame s"
  "window_width (page (destroy s)) = window_width (page s)"
  "navbar_outerWidth (page (destroy s)) = navbar_outerWidth (page s)"
  "elem_fx (page (destroy s)) = elem_fx (page s)"
  "raf_pending (page (destroy s)) = raf_pending (page s)"
  "raf_next (page (destroy s)) = raf_next (page s)"
  "listeners (page (destroy s)) = listeners (page s)"
  by (simp_all add: destroy_def in_order_def on_page_def Let_def)

lemma apply_isMobile [simp]:
  "isMobile (priv_applyMobile s) = isMobile s"
  "isMobile (priv_applyDesktop s) = isMobile s"
  "isMobile (priv_applySidebar s) = isMobile s"
  "isMobile (destroy s) = isMobile s"
  by (simp_all add: apply_defs destroy_def)

lemma priv_resize_fields [simp]:
  "options (priv_resize s) = options s"
  "isShown (priv_resize s) = isShown s"
  "resizeAnimationFrame (priv_resize s) = resizeAnimationFrame s"
  "window_width (page (priv_resize s)) = window_width (page s)"
  "navbar_outerWidth (page (priv_resize s)) = navbar_outerWidth (page s)"
  "elem_fx (page (priv_resize s)) = elem_fx (page s)"
  "raf_pending (page (priv_resize s)) = raf_pending (page s)"
  "raf_next (page (priv_resize s)) = raf_next (page s)"
  "listeners (page (priv_resize s)) = listeners (page s)"
  by (simp_all add: priv_resize_def Let_def)

lemma priv_resize_isMobile [simp]:
  "isMobile (priv_resize s) = Some (window_width (page s) < breakpoint (options s))"
  by (simp add: priv_resize_def Let_def)

lemma resize_consistent: "consistent opts s \<Longrightarrow> consistent opts (priv_resize s)"
  by (auto simp: inv_defs)

lemma onResize_consistent: "consistent opts s \<Longrightarrow> consistent opts (priv_onResize s)"
  by (auto simp: inv_defs priv_onResize_def on_page_def requestAnimationFrame_def
      cancelAnimationFrame_def truthy_handle_def split: list.splits option.splits)

lemma open_consistent: "consistent opts s \<Longrightarrow> consistent opts (priv_open s)"
  by (auto simp: inv_defs priv_open_def in_order_def on_page_def fx_defs truthy_def)

lemma close_consistent: "consistent opts s \<Longrightarrow> consistent opts (priv_close s)"
  by (auto simp: inv_defs priv_close_def in_order_def on_page_def fx_defs truthy_def)

lemma destroy_consistent: "consistent opts s \<Longrightarrow> consistent opts (destroy s)"
  by (auto simp: inv_defs)

lemma fx_done_consistent: "consistent opts s \<Longrightarrow> consistent opts (on_page (fx_done e) s)"
  by (cases e) (auto simp: inv_defs on_page_def)

lemma width_consistent:
  "consistent opts s \<Longrightarrow> consistent opts (on_page (\<lambda>p. p\<lparr>window_width := w\<rparr>) s)"
  by (auto simp: inv_defs on_page_def)

lemma unpend_consistent:
  "consistent opts s \<Longrightarrow> consistent opts (on_page (\<lambda>p. p\<lparr>raf_pending := []\<rparr>) s)"
  by (auto simp: inv_defs on_page_def)

lemma step_consistent: "consistent opts s \<Longrightarrow> consistent opts (step ev s)"
proof (cases ev)
  case (Resize w)
  assume c: "consistent opts s"
  have "listeners (page (on_page (\<lambda>p. p\<lparr>window_width := w\<rparr>) s)) = widget_listeners"
    using width_consistent [OF c] by (simp add: consistent_def)
  then show ?thesis
    using Resize onResize_consistent [OF width_consistent [OF c]] by (simp add: fire_resize)
next
  case Frame
  assume c: "consistent opts s"
  then have "raf_ok (resizeAnimationFrame s) (page s)" by (simp add: consistent_def)
  then show ?thesis
    using Frame c resize_consistent [OF unpend_consistent [OF c]] by (simp add: frame_cases)
next
  case (Click e)
  assume c: "consistent opts s"
  then have "listeners (page s) = widget_listeners" by (simp add: consistent_def)
  then show ?thesis
    using Click c open_consistent [OF c] close_consistent [OF c]
    by (simp add: fire_click priv_onToggle_def)
next
  case (FxDone e)
  then show "consistent opts s \<Longrightarrow> ?thesis" by (simp add: fx_done_consistent)
next
  case CallOpen
  then show "consistent opts s \<Longrightarrow> ?thesis" by (simp add: public_open_def open_consistent)
next
  case CallClose
  then show "consistent opts s \<Longrightarrow> ?thesis" by (simp add: public_close_def close_consistent)
next
  case CallDestroy
  then show "consistent opts s \<Longrightarrow> ?thesis" by (simp add: destroy_consistent)
qed

lemma run_consistent: "consistent opts s \<Longrightarrow> consistent opts (run evs s)"
  unfolding run_def by (induction evs arbitrary: s) (simp_all add: step_consistent)

lemma create_consistent: "pristine p \<Longrightarrow> consistent opts (priv_create opts p)"
  by (simp add: priv_create_def priv_initEvents_def priv_on_def pristine_def inv_defs
      priv_resize_def apply_defs widget_listeners_def)

lemma reachable_consistent:
  "pristine p \<Longrightarrow> consistent opts (run evs (priv_create opts p))"
  by (simp add: run_consistent create_consistent)

text \<open>
  \<^bold>\<open>C4.\<close> The public \<^verbatim>\<open>open()\<close> leaves the whole state (fields and page) as it is
  unless the controller is in mobile mode and not open; the public \<^verbatim>\<open>close()\<close> leaves
  it as it is unless the controller is in mobile mode and open. Where the guard holds,
  the private transition runs.
\<close>

theorem public_open_close_guarded:
  "(\<not> (isMobile s = Some True \<and> isShown s \<noteq> Some True) \<longrightarrow> public_open s = s)
   \<and> (\<not> (isMobile s = Some True \<and> isShown s = Some True) \<longrightarrow> public_close s = s)
   \<and> (isMobile s = Some True \<and> isShown s \<noteq> Some True \<longrightarrow> public_open s = priv_open s)
   \<and> (isMobile s = Some True \<and> isShown s = Some True \<longrightarrow> public_close s = priv_close s)"
  by (simp add: public_open_def public_close_def truthy_def)

text \<open>
  The theorem at three states of the default configuration: created on a 1400 pixel
  viewport (non-mobile), created on a 1000 pixel viewport (mobile, closed), and the
  latter after a click on the toggle control (mobile, open).
\<close>

theorem public_open_close_guarded_witness:
  "isMobile (priv_create default_options (blank_page 1400)) = Some False
   \<and> public_open (priv_create default_options (blank_page 1400))
       = priv_create default_options (blank_page 1400)
   \<and> public_close (priv_create default_options (blank_page 1400))
       = priv_create default_options (blank_page 1400)
   \<and> isMobile (priv_create default_options (blank_page 1000)) = Some True
   \<and> isShown (priv_create default_options (blank_page 1000)) = None
   \<and> public_open (priv_create default_options (blank_page 1000))
       = priv_open (priv_create default_options (blank_page 1000))
   \<and> public_close (priv_create default_options (blank_page 1000))
       = priv_create default_options (blank_page 1000)
   \<and> isShown (priv_open (priv_create default_options (blank_page 1000))) = Some True
   \<and> public_close (priv_open (priv_create default_options (blank_page 1000)))
       = priv_close (priv_open (priv_create default_options (blank_page 1000)))"
proof -
  have a: "isMobile (priv_create default_options (blank_page 1400)) = Some False"
    by (simp add: priv_create_def priv_initEvents_def priv_on_def on_page_def
        default_options_def blank_page_def)
  have b: "isMobile (priv_create default_options (blank_page 1000)) = Some True"
    by (simp add: priv_create_def priv_initEvents_def priv_on_def on_page_def
        default_options_def blank_page_def)
  have c: "isShown (priv_create default_options (blank_page 1000)) = None"
    by (simp add: priv_create_def priv_initEvents_def priv_on_def on_page_def)
  have d: "isShown (priv_open (priv_create default_options (blank_page 1000))) = Some True"
    by (simp add: priv_open_def in_order_def on_page_def Let_def)
  have e: "isMobile (priv_open (priv_create default_options (blank_page 1000))) = Some True"
    using b by (simp add: priv_open_def in_order_def on_page_def Let_def)
  show ?thesis
    using a b c d e
      public_open_close_guarded [of "priv_create default_options (blank_page 1400)"]
      public_open_close_guarded [of "priv_create default_options (blank_page 1000)"]
      public_open_close_guarded [of "priv_open (priv_create default_options (blank_page 1000))"]
    by simp
qed

subsection \<open>Classes and styles under the jQuery calls\<close>

lemma class_op_style [simp]:
  "elem_style (addClass e c p) = elem_style p"
  "elem_style (removeClass e c p) = elem_style p"
  "elem_style (toggleClass e c b p) = elem_style p"
  by (simp_all add: jq_defs)

lemma style_op_classes [simp]:
  "elem_classes (css e props p) = elem_classes p"
  "elem_classes (hide e p) = elem_classes p"
  "elem_classes (show_elem e p) = elem_classes p"
  "elem_classes (toggle_elem e b p) = elem_classes p"
  by (simp_all add: jq_defs)

lemma class_op_classes [simp]:
  "elem_classes (addClass e c p) e' =
     (if e' = e then elem_classes p e \<union> set (tokens c) else elem_classes p e')"
  "elem_classes (removeClass e c p) e' =
     (if e' = e then elem_classes p e - set (tokens c) else elem_classes p e')"
  by (simp_all add: jq_defs)

lemma one_token_tokens [simp]: "one_token c \<Longrightarrow> tokens c = [c]"
  by (simp add: one_token_def)

lemma default_tokens [simp]:
  "one_token ''layout-desktop''" "one_token ''layout-mobile''" "one_token ''layout-sidebar''"
  "one_token ''active''"
  by (simp_all add: one_token_def tokens_def html_space_def)

lemma style_op_style [simp]:
  "elem_style (css e props p) e' =
     (if e' = e then fold (\<lambda>(n, v). set_prop n v) props (elem_style p e) else elem_style p e')"
  "elem_style (hide e p) e' =
     (if e' = e then (elem_style p e)(''display'' \<mapsto> Lit ''none'') else elem_style p e')"
  "elem_style (show_elem e p) e' =
     (if e' = e then (elem_style p e)(''display'' := None) else elem_style p e')"
  by (simp_all add: jq_defs)

subsection \<open>Open and close\<close>

lemma requeue_short [simp]:
  "tl q = [] \<Longrightarrow> requeue q a = (if anim_duration a \<le> 0 then [] else [a])"
  by (simp add: requeue_def)

lemma priv_open_fields [simp]:
  "options (priv_open s) = options s"
  "isMobile (priv_open s) = isMobile s"
  "isShown (priv_open s) = Some True"
  "resizeAnimationFrame (priv_open s) = resizeAnimationFrame s"
  "window_width (page (priv_open s)) = window_width (page s)"
  "raf_pending (page (priv_open s)) = raf_pending (page s)"
  "raf_next (page (priv_open s)) = raf_next (page s)"
  "listeners (page (priv_open s)) = listeners (page s)"
  "elem_fx (page (priv_open s)) =
     (elem_fx (page s))
       (Navbar := requeue (elem_fx (page s) Navbar)
                    (Animate ''left'' 0 (duration (options s)) (easing (options s))),
        Overlay := requeue (elem_fx (page s) Overlay)
                     (FadeIn (duration (options s)) (easing (options s))))"
  by (simp_all add: priv_open_def in_order_def on_page_def fx_defs requeue_def Let_def)

lemma priv_close_fields [simp]:
  "options (priv_close s) = options s"
  "isMobile (priv_close s) = isMobile s"
  "isShown (priv_close s) = Some False"
  "resizeAnimationFrame (priv_close s) = resizeAnimationFrame s"
  "window_width (page (priv_close s)) = window_width (page s)"
  "raf_pending (page (priv_close s)) = raf_pending (page s)"
  "raf_next (page (priv_close s)) = raf_next (page s)"
  "listeners (page (priv_close s)) = listeners (page s)"
  "elem_fx (page (priv_close s)) =
     (elem_fx (page s))
       (Navbar := requeue (elem_fx (page s) Navbar)
                    (Animate ''left'' (- width (options s)) (duration (options s))
                       (easing (options s))),
        Overlay := requeue (elem_fx (page s) Overlay)
                     (FadeOut (duration (options s)) (easing (options s))))"
  by (simp_all add: priv_close_def in_order_def on_page_def fx_defs requeue_def Let_def)

lemma consistent_queues:
  "consistent opts s \<Longrightarrow>
   tl (elem_fx (page s) Navbar) = [] \<and> tl (elem_fx (page s) Overlay) = []"
  by (auto simp: consistent_def fx_ok_def)

text \<open>
  The inline styles of the panel and the overlay after \<^verbatim>\<open>_open\<close> and \<^verbatim>\<open>_close\<close>,
  when at most one animation was in flight on each: the fade-in shows the overlay at
  once, and an animation of no duration has written its end value.
\<close>

lemma stop_then_enqueue_style:
  assumes "tl (elem_fx p e) = []"
  shows "elem_style (enqueue e a (stop e p)) e
           = (if anim_duration a \<le> 0
              then elem_style (fx_finish e a (fx_start e a p)) e
              else elem_style (fx_start e a p) e)"
  using assms
  by (cases "elem_fx p e"; cases a)
     (simp_all add: stop_def enqueue_def wrote_def)

lemma open_styles:
  assumes "tl (elem_fx (page s) Navbar) = []" and "tl (elem_fx (page s) Overlay) = []"
  shows "elem_style (page (priv_open s)) Navbar
           = (if duration (options s) \<le> 0 then (elem_style (page s) Navbar)(''left'' \<mapsto> Px 0)
              else elem_style (page s) Navbar)"
    and "elem_style (page (priv_open s)) Overlay = (elem_style (page s) Overlay)(''display'' := None)"
  using stop_then_enqueue_style
      [of "addClass Navbtn (active (classes (options s))) (page s)" Navbar
          "Animate ''left'' 0 (duration (options s)) (easing (options s))"]
    stop_then_enqueue_style
      [of "enqueue Navbar (Animate ''left'' 0 (duration (options s)) (easing (options s)))
             (stop Navbar (addClass Navbtn (active (classes (options s))) (page s)))"
          Overlay "FadeIn (duration (options s)) (easing (options s))"]
    assms
  by (simp_all add: priv_open_def in_order_def on_page_def fx_defs Let_def)

lemma close_styles:
  assumes "tl (elem_fx (page s) Navbar) = []" and "tl (elem_fx (page s) Overlay) = []"
  shows "elem_style (page (priv_close s)) Navbar
           = (if duration (options s) \<le> 0
              then (elem_style (page s) Navbar)(''left'' \<mapsto> Px (- width (options s)))
              else elem_style (page s) Navbar)"
    and "elem_style (page (priv_close s)) Overlay
           = (if duration (options s) \<le> 0
              then (elem_style (page s) Overlay)(''display'' \<mapsto> Lit ''none'')
              else elem_style (page s) Overlay)"
  using stop_then_enqueue_style
      [of "removeClass Navbtn (active (classes (options s))) (page s)" Navbar
          "Animate ''left'' (- width (options s)) (duration (options s)) (easing (options s))"]
    stop_then_enqueue_style
      [of "enqueue Navbar
             (Animate ''left'' (- width (options s)) (duration (options s)) (easing (options s)))
             (stop Navbar (removeClass Navbtn (active (classes (options s))) (page s)))"
          Overlay "FadeOut (duration (options s)) (easing (options s))"]
    assms
  by (simp_all add: priv_close_def in_order_def on_page_def fx_defs Let_def)

lemma fx_settle_single: "elem_fx p e = [a] \<Longrightarrow> fx_settle e p = fx_run e [] (fx_finish e a p)"
  by (simp add: fx_settle_def fx_done_def)

lemma fx_settle_empty: "elem_fx p e = [] \<Longrightarrow> fx_settle e p = p"
  by (simp add: fx_settle_def)

lemma fx_run_empty_style [simp]: "elem_style (fx_run e [] p) = elem_style p"
  by simp

text \<open>Both queues of a just closed widget run to their end.\<close>

lemma closed_settled:
  assumes "tl (elem_fx (page s) Navbar) = []" and "tl (elem_fx (page s) Overlay) = []"
  shows "elem_fx (fx_settle Overlay (fx_settle Navbar (page (priv_close s)))) Navbar = []"
    and "elem_fx (fx_settle Overlay (fx_settle Navbar (page (priv_close s)))) Overlay = []"
    and "elem_style (fx_settle Overlay (fx_settle Navbar (page (priv_close s)))) Navbar ''left''
           = Some (Px (- width (options s)))"
    and "elem_style (fx_settle Overlay (fx_settle Navbar (page (priv_close s)))) Overlay ''display''
           = Some (Lit ''none'')"
proof -
  define P where "P = page (priv_close s)"
  define a where "a = Animate ''left'' (- width (options s)) (duration (options s))
                        (easing (options s))"
  define b where "b = FadeOut (duration (options s)) (easing (options s))"
  have q: "elem_fx P Navbar = (if duration (options s) \<le> 0 then [] else [a])"
    "elem_fx P Overlay = (if duration (options s) \<le> 0 then [] else [b])"
    using assms by (simp_all add: P_def a_def b_def)
  have st: "elem_style P Navbar
           = (if duration (options s) \<le> 0
              then (elem_style (page s) Navbar)(''left'' \<mapsto> Px (- width (options s)))
              else elem_style (page s) Navbar)"
    "elem_style P Overlay
           = (if duration (options s) \<le> 0
              then (elem_style (page s) Overlay)(''display'' \<mapsto> Lit ''none'')
              else elem_style (page s) Overlay)"
    unfolding P_def using assms by (rule close_styles)+
  have all: "elem_fx (fx_settle Overlay (fx_settle Navbar P)) Navbar = []
             \<and> elem_fx (fx_settle Overlay (fx_settle Navbar P)) Overlay = []
             \<and> elem_style (fx_settle Overlay (fx_settle Navbar P)) Navbar ''left''
                 = Some (Px (- width (options s)))
             \<and> elem_style (fx_settle Overlay (fx_settle Navbar P)) Overlay ''display''
                 = Some (Lit ''none'')"
  proof (cases "duration (options s) \<le> 0")
    case True
    then show ?thesis
      using q st by (simp add: fx_settle_empty)
  next
    case False
    then have 1: "fx_settle Navbar P = fx_run Navbar [] (fx_finish Navbar a P)"
      using q(1) by (simp add: fx_settle_single)
    have "elem_fx (fx_settle Navbar P) Overlay = [b]"
      using False q(2) by (simp add: 1)
    then have 2: "fx_settle Overlay (fx_settle Navbar P)
                    = fx_run Overlay [] (fx_finish Overlay b (fx_settle Navbar P))"
      by (rule fx_settle_single)
    show ?thesis
      by (simp add: 2 b_def) (simp add: 1 a_def)
  qed
  then show "elem_fx (fx_settle Overlay (fx_settle Navbar (page (priv_close s)))) Navbar = []"
    and "elem_fx (fx_settle Overlay (fx_settle Navbar (page (priv_close s)))) Overlay = []"
    and "elem_style (fx_settle Overlay (fx_settle Navbar (page (priv_close s)))) Navbar ''left''
           = Some (Px (- width (options s)))"
    and "elem_style (fx_settle Overlay (fx_settle Navbar (page (priv_close s)))) Overlay ''display''
           = Some (Lit ''none'')"
    by (simp_all add: P_def)
qed

text \<open>
  \<^bold>\<open>C3.\<close> In every state a created widget can reach in mobile mode, for every
  duration and every easing jQuery defines: \<^verbatim>\<open>open()\<close> on an open widget does
  nothing; on a closed one it sets the flag, shows the overlay, and leaves on the panel
  and on the overlay its own animation alone, whatever was in flight there before (with
  a duration that is not positive the animation is already at its end and the queue is
  empty). \<^verbatim>\<open>close()\<close> right after it ends closed: the flag is false, the panel's
  queue holds the closing animation alone and the overlay's queue the fade-out alone
  (or nothing, for a duration that is not positive), and when these have run to their
  end the panel stands at minus the configured width and the overlay is hidden.
\<close>

theorem open_then_close_is_closed:
  assumes "pristine p" and "isMobile (run evs (priv_create opts p)) = Some True"
    and "defined_easing (easing opts)"
  shows "let s = run evs (priv_create opts p);
             t = public_open s;
             s' = public_close t;
             settled = fx_settle Overlay (fx_settle Navbar (page s'))
         in (isShown s = Some True \<longrightarrow> t = s)
            \<and> (isShown s \<noteq> Some True \<longrightarrow>
                  isShown t = Some True
                  \<and> elem_fx (page t) Navbar
                      = (if 0 < duration opts
                         then [Animate ''left'' 0 (duration opts) (easing opts)] else [])
                  \<and> elem_fx (page t) Overlay
                      = (if 0 < duration opts then [FadeIn (duration opts) (easing opts)] else [])
                  \<and> elem_style (page t) Overlay ''display'' = None)
            \<and> isShown s' = Some False
            \<and> elem_fx (page s') Navbar
                = (if 0 < duration opts
                   then [Animate ''left'' (- width opts) (duration opts) (easing opts)] else [])
            \<and> elem_fx (page s') Overlay
                = (if 0 < duration opts then [FadeOut (duration opts) (easing opts)] else [])
            \<and> elem_fx settled Navbar = [] \<and> elem_fx settled Overlay = []
            \<and> elem_style settled Navbar ''left'' = Some (Px (- width opts))
            \<and> elem_style settled Overlay ''display'' = Some (Lit ''none'')"
proof -
  define s where "s = run evs (priv_create opts p)"
  define t where "t = public_open s"
  define s' where "s' = public_close t"
  have c: "consistent opts s"
    unfolding s_def using assms(1) by (rule reachable_consistent)
  have m: "isMobile s = Some True"
    unfolding s_def by (rule assms(2))
  have o: "options s = opts"
    using c by (simp add: consistent_def)
  have noop: "t = s" if "isShown s = Some True"
    using that by (simp add: t_def public_open_def truthy_def)
  have opened: "isShown t = Some True
                \<and> elem_fx (page t) Navbar
                    = (if 0 < duration opts
                       then [Animate ''left'' 0 (duration opts) (easing opts)] else [])
                \<and> elem_fx (page t) Overlay
                    = (if 0 < duration opts then [FadeIn (duration opts) (easing opts)] else [])
                \<and> elem_style (page t) Overlay ''display'' = None"
    if "isShown s \<noteq> Some True"
  proof -
    have "t = priv_open s"
      using that m by (simp add: t_def public_open_def truthy_def)
    then show ?thesis
      using consistent_queues [OF c] open_styles(2) [of s] o by auto
  qed
  have ct: "consistent opts t"
    using c by (simp add: t_def public_open_def open_consistent)
  have shown: "isShown t = Some True" and mob: "isMobile t = Some True"
    and ot: "options t = opts"
    using m o by (auto simp: t_def public_open_def truthy_def)
  have eq: "s' = priv_close t"
    unfolding s'_def using shown mob by (simp add: public_close_def truthy_def)
  have q: "elem_fx (page s') Navbar
             = (if 0 < duration opts
                then [Animate ''left'' (- width opts) (duration opts) (easing opts)] else [])"
          "elem_fx (page s') Overlay
             = (if 0 < duration opts then [FadeOut (duration opts) (easing opts)] else [])"
    using consistent_queues [OF ct] ot by (auto simp: eq)
  have closed: "isShown s' = Some False"
    by (simp add: eq)
  have settled: "elem_fx (fx_settle Overlay (fx_settle Navbar (page s'))) Navbar = []"
       "elem_fx (fx_settle Overlay (fx_settle Navbar (page s'))) Overlay = []"
       "elem_style (fx_settle Overlay (fx_settle Navbar (page s'))) Navbar ''left''
          = Some (Px (- width opts))"
       "elem_style (fx_settle Overlay (fx_settle Navbar (page s'))) Overlay ''display''
          = Some (Lit ''none'')"
    using consistent_queues [OF ct] closed_settled [of t] ot by (simp_all add: eq)
  show ?thesis
    unfolding Let_def s_def [symmetric] t_def [symmetric] s'_def [symmetric]
    using noop opened q closed settled by blast
qed

text \<open>
  The theorem at the default configuration created at 1000 pixels (mobile, closed), and
  the closing part of it again at duration 0.
\<close>

theorem open_then_close_is_closed_witness:
  "pristine (blank_page 1000)
   \<and> isMobile (run [] (priv_create default_options (blank_page 1000))) = Some True
   \<and> defined_easing (easing default_options)
   \<and> isShown (run [] (priv_create default_options (blank_page 1000))) \<noteq> Some True
   \<and> (let t = public_open (priv_create default_options (blank_page 1000));
           s' = public_close t;
           settled = fx_settle Overlay (fx_settle Navbar (page s'))
       in isShown t = Some True
          \<and> elem_fx (page t) Navbar = [Animate ''left'' 0 300 ''linear'']
          \<and> elem_fx (page t) Overlay = [FadeIn 300 ''linear'']
          \<and> elem_style (page t) Overlay ''display'' = None
          \<and> isShown s' = Some False
          \<and> elem_fx (page s') Navbar = [Animate ''left'' (- 300) 300 ''linear'']
          \<and> elem_fx (page s') Overlay = [FadeOut 300 ''linear'']
          \<and> elem_fx settled Navbar = [] \<and> elem_fx settled Overlay = []
          \<and> elem_style settled Navbar ''left'' = Some (Px (- 300))
          \<and> elem_style settled Overlay ''display'' = Some (Lit ''none''))
   \<and> (let s' = public_close
                  (public_open (priv_create (default_options\<lparr>duration := 0\<rparr>) (blank_page 1000)))
       in isShown s' = Some False
          \<and> elem_fx (page s') Navbar = [] \<and> elem_fx (page s') Overlay = []
          \<and> elem_style (fx_settle Overlay (fx_settle Navbar (page s'))) Navbar ''left''
              = Some (Px (- 300))
          \<and> elem_style (fx_settle Overlay (fx_settle Navbar (page s'))) Overlay ''display''
              = Some (Lit ''none''))"
proof -
  have h1: "pristine (blank_page 1000)"
    by (simp add: pristine_def blank_page_def)
  have h2: "isMobile (run [] (priv_create default_options (blank_page 1000))) = Some True"
    by (simp add: run_def priv_create_def priv_initEvents_def priv_on_def on_page_def
        default_options_def blank_page_def)
  have h3: "defined_easing (easing default_options)"
    by (simp add: defined_easing_def default_options_def)
  have h4: "isShown (run [] (priv_create default_options (blank_page 1000))) \<noteq> Some True"
    by (simp add: run_def priv_create_def priv_initEvents_def priv_on_def on_page_def)
  have k2: "isMobile (run [] (priv_create (default_options\<lparr>duration := 0\<rparr>) (blank_page 1000)))
              = Some True"
    by (simp add: run_def priv_create_def priv_initEvents_def priv_on_def on_page_def
        default_options_def blank_page_def)
  have k3: "defined_easing (easing (default_options\<lparr>duration := 0\<rparr>))"
    by (simp add: defined_easing_def default_options_def)
  have v: "width default_options = 300" "duration default_options = 300"
    "easing default_options = ''linear''"
    "width (default_options\<lparr>duration := 0\<rparr>) = 300"
    "duration (default_options\<lparr>duration := 0\<rparr>) = 0"
    by (simp_all add: default_options_def)
  from open_then_close_is_closed [OF h1 h2 h3] open_then_close_is_closed [OF h1 k2 k3] h1 h2 h3 h4
  show ?thesis
    by (simp add: run_def Let_def v)
qed

subsection \<open>Resize notifications and frames\<close>

lemma priv_onResize_fields [simp]:
  "options (priv_onResize s) = options s"
  "isMobile (priv_onResize s) = isMobile s"
  "isShown (priv_onResize s) = isShown s"
  "window_width (page (priv_onResize s)) = window_width (page s)"
  "elem_classes (page (priv_onResize s)) = elem_classes (page s)"
  "elem_style (page (priv_onResize s)) = elem_style (page s)"
  "elem_fx (page (priv_onResize s)) = elem_fx (page s)"
  "listeners (page (priv_onResize s)) = listeners (page s)"
  "dom_writes (page (priv_onResize s)) = dom_writes (page s)"
  by (simp_all add: priv_onResize_def on_page_def requestAnimationFrame_def
      cancelAnimationFrame_def Let_def)

lemma onResize_pending:
  assumes "raf_ok (resizeAnimationFrame s) (page s)"
  shows "raf_pending (page (priv_onResize s)) = [raf_next (page s)]"
    and "resizeAnimationFrame (priv_onResize s) = Some (raf_next (page s))"
    and "raf_next (page (priv_onResize s)) = Suc (raf_next (page s))"
  using assms
  by (auto simp: priv_onResize_def on_page_def requestAnimationFrame_def
      cancelAnimationFrame_def truthy_handle_def raf_ok_def Let_def split: list.splits)

text \<open>The state in which the one pending callback of a frame runs.\<close>

lemma resize_then_frame:
  assumes "consistent opts s"
  shows "run [Resize w, Frame] s
           = priv_resize (on_page (\<lambda>p. p\<lparr>raf_pending := []\<rparr>) (priv_onResize (at_width w s)))"
proof -
  have c: "consistent opts (at_width w s)"
    unfolding at_width_def using assms by (rule width_consistent)
  then have l: "listeners (page (at_width w s)) = widget_listeners"
    and r: "raf_ok (resizeAnimationFrame (at_width w s)) (page (at_width w s))"
    by (simp_all add: consistent_def)
  have 1: "step (Resize w) s = priv_onResize (at_width w s)"
    using l by (simp add: fire_resize at_width_def)
  have 2: "raf_ok (resizeAnimationFrame (priv_onResize (at_width w s)))
             (page (priv_onResize (at_width w s)))"
    using onResize_consistent [OF c] by (simp add: consistent_def)
  have "run [Resize w, Frame] s = frame (step (Resize w) s)"
    by (simp add: run_def)
  then show ?thesis
    using onResize_pending(1) [OF r] by (simp only: 1 frame_cases [OF 2]) simp
qed

lemma at_width_fields [simp]:
  "options (at_width w s) = options s"
  "isMobile (at_width w s) = isMobile s"
  "isShown (at_width w s) = isShown s"
  "resizeAnimationFrame (at_width w s) = resizeAnimationFrame s"
  "window_width (page (at_width w s)) = w"
  "elem_classes (page (at_width w s)) = elem_classes (page s)"
  "elem_style (page (at_width w s)) = elem_style (page s)"
  "elem_fx (page (at_width w s)) = elem_fx (page s)"
  "raf_pending (page (at_width w s)) = raf_pending (page s)"
  "raf_next (page (at_width w s)) = raf_next (page s)"
  "listeners (page (at_width w s)) = listeners (page s)"
  "dom_writes (page (at_width w s)) = dom_writes (page s)"
  by (simp_all add: at_width_def on_page_def)

lemma unpend_fields [simp]:
  "options (on_page (\<lambda>p. p\<lparr>raf_pending := []\<rparr>) s) = options s"
  "isMobile (on_page (\<lambda>p. p\<lparr>raf_pending := []\<rparr>) s) = isMobile s"
  "isShown (on_page (\<lambda>p. p\<lparr>raf_pending := []\<rparr>) s) = isShown s"
  "window_width (page (on_page (\<lambda>p. p\<lparr>raf_pending := []\<rparr>) s)) = window_width (page s)"
  "elem_classes (page (on_page (\<lambda>p. p\<lparr>raf_pending := []\<rparr>) s)) = elem_classes (page s)"
  "elem_style (page (on_page (\<lambda>p. p\<lparr>raf_pending := []\<rparr>) s)) = elem_style (page s)"
  "elem_fx (page (on_page (\<lambda>p. p\<lparr>raf_pending := []\<rparr>) s)) = elem_fx (page s)"
  "dom_writes (page (on_page (\<lambda>p. p\<lparr>raf_pending := []\<rparr>) s)) = dom_writes (page s)"
  by (simp_all add: on_page_def)

subsection \<open>What the mode applications write\<close>

lemma applyMobile_styles:
  "elem_style (page (priv_applyMobile s)) Navbar ''left''
     = Some (if truthy (isShown s) then Lit ''0'' else Px (- width (options s)))"
  "elem_style (page (priv_applyMobile s)) Navbar ''width''
     = Some (Px (max 0 (width (options s))))"
  "elem_style (page (priv_applyMobile s)) Navbar ''position'' = Some (Lit ''absolute'')"
  "elem_style (page (priv_applyMobile s)) Navbtn ''display'' = None"
  "elem_style (page (priv_applyMobile s)) Overlay ''display''
     = (if truthy (isShown s) then None else Some (Lit ''none''))"
  by (simp_all add: apply_defs set_prop_def)

lemma applySidebar_styles:
  "elem_style (page (priv_applySidebar s)) Navbar ''width''
     = Some (Px (max 0 (width (options s))))"
  "elem_style (page (priv_applySidebar s)) Navbar ''position'' = None"
  "elem_style (page (priv_applySidebar s)) Navbtn ''display'' = Some (Lit ''none'')"
  "elem_style (page (priv_applySidebar s)) Overlay ''display'' = Some (Lit ''none'')"
  by (simp_all add: apply_defs set_prop_def)

lemma applyDesktop_styles:
  "elem_style (page (priv_applyDesktop s)) Navbar ''width'' = None"
  "elem_style (page (priv_applyDesktop s)) Navbar ''position'' = None"
  "elem_style (page (priv_applyDesktop s)) Navbtn ''display'' = Some (Lit ''none'')"
  "elem_style (page (priv_applyDesktop s)) Overlay ''display'' = Some (Lit ''none'')"
  by (simp_all add: apply_defs set_prop_def)


subsection \<open>The created state, clicks\<close>

lemma created_fields [simp]:
  "options (priv_create opts p) = opts"
  "isMobile (priv_create opts p) = Some (window_width p < breakpoint opts)"
  "isShown (priv_create opts p) = None"
  "resizeAnimationFrame (priv_create opts p) = None"
  "window_width (page (priv_create opts p)) = window_width p"
  "elem_fx (page (priv_create opts p)) = elem_fx p"
  "raf_pending (page (priv_create opts p)) = raf_pending p"
  "raf_next (page (priv_create opts p)) = raf_next p"
  "listeners (page (priv_create opts p)) = listeners p @ widget_listeners"
  by (simp_all add: priv_create_def priv_initEvents_def priv_on_def on_page_def
      widget_listeners_def)

lemma click_toggles:
  "consistent opts s \<Longrightarrow> e = Navbtn \<or> e = Overlay \<Longrightarrow> step (Click e) s = priv_onToggle s"
  by (auto simp: consistent_def fire_click)

lemma pristine_blank [simp]: "pristine (blank_page w)"
  by (simp add: pristine_def blank_page_def)

lemma blank_width [simp]: "window_width (blank_page w) = w"
  by (simp add: blank_page_def)

lemma default_values [simp]:
  "breakpoint default_options = 1200" "width default_options = 300"
  "duration default_options = 300" "easing default_options = ''linear''"
  "sidebar default_options = False"
  by (simp_all add: default_options_def)

subsection \<open>The open flag under layout evaluation\<close>

lemma viewport_step_isShown:
  "consistent opts s \<Longrightarrow> viewport_event ev \<Longrightarrow> isShown (step ev s) = isShown s"
proof (cases ev)
  case (Resize w)
  assume "consistent opts s"
  then have "listeners (page (on_page (\<lambda>p. p\<lparr>window_width := w\<rparr>) s)) = widget_listeners"
    by (simp add: consistent_def on_page_def)
  then show ?thesis
    using Resize by (simp add: fire_resize) (simp add: on_page_def)
next
  case Frame
  assume "consistent opts s"
  then have "raf_ok (resizeAnimationFrame s) (page s)"
    by (simp add: consistent_def)
  then show ?thesis
    using Frame by (simp add: frame_cases)
qed simp_all

lemma viewport_run_isShown:
  "consistent opts s \<Longrightarrow> list_all viewport_event vs \<Longrightarrow> isShown (run vs s) = isShown s"
proof (induction vs arbitrary: s)
  case Nil
  then show ?case by (simp add: run_def)
next
  case (Cons v vs)
  have "run (v # vs) s = run vs (step v s)"
    by (simp add: run_def)
  moreover have "consistent opts (step v s)"
    using Cons.prems(1) by (rule step_consistent)
  ultimately show ?case
    using Cons by (simp add: viewport_step_isShown)
qed

lemma cross_and_back:
  assumes c: "consistent opts s" and m: "isMobile s = Some True"
    and w1: "breakpoint opts \<le> w1" and w2: "w2 < breakpoint opts"
  shows "\<exists>t. run [Resize w1, Frame, Resize w2, Frame] s = priv_applyMobile t
             \<and> isShown t = isShown s \<and> isMobile t = Some True \<and> options t = opts
             \<and> elem_fx (page t) = elem_fx (page s)"
proof -
  define a where "a = run [Resize w1, Frame] s"
  define x where "x = on_page (\<lambda>p. p\<lparr>raf_pending := []\<rparr>) (priv_onResize (at_width w1 s))"
  define y where "y = on_page (\<lambda>p. p\<lparr>raf_pending := []\<rparr>) (priv_onResize (at_width w2 a))"
  have o: "options s = opts"
    using c by (simp add: consistent_def)
  have a: "a = priv_resize x"
    unfolding a_def x_def using c by (rule resize_then_frame)
  have ca: "consistent opts a"
    unfolding a_def using c by (rule run_consistent)
  have xs: "isMobile x = Some True" "options x = opts" "window_width (page x) = w1"
    "isShown x = isShown s" "elem_fx (page x) = elem_fx (page s)"
    using m o by (simp_all add: x_def)
  have as: "isMobile a = Some False" "options a = opts" "isShown a = isShown s"
    "elem_fx (page a) = elem_fx (page s)"
    using xs w1 by (simp_all add: a)
  have ys: "isMobile y = Some False" "options y = opts" "window_width (page y) = w2"
    "isShown y = isShown s" "elem_fx (page y) = elem_fx (page s)"
    using as by (simp_all add: y_def)
  have "run [Resize w1, Frame, Resize w2, Frame] s = run [Resize w2, Frame] a"
    by (simp add: run_def a_def)
  also have "\<dots> = priv_resize y"
    unfolding y_def using ca by (rule resize_then_frame)
  also have "\<dots> = priv_applyMobile (y\<lparr>isMobile := Some True\<rparr>)"
    using ys w2 by (simp add: priv_resize_def)
  finally show ?thesis
    using ys by (intro exI [of _ "y\<lparr>isMobile := Some True\<rparr>"]) simp
qed

text \<open>
  \<^bold>\<open>C10.\<close> Layout evaluation and the three mode applications leave the open flag as
  it is, and so does every sequence of resize notifications and frames. Hence, from a
  reachable state that is mobile and open, a resize to a non-mobile width and, after a
  frame, a resize back to a mobile width and another frame (no open or close between)
  reapply the mobile presentation for the open state: the flag is still true, the
  panel's offset is \<^verbatim>\<open>0\<close>, the overlay's inline \<^verbatim>\<open>display\<close> is cleared (it shows), and
  this stays so when the animations still in flight have run to their end.
\<close>

theorem isShown_kept_by_layout:
  assumes "pristine p" and "s = run evs (priv_create opts p)"
  shows "isShown (priv_resize s) = isShown s
         \<and> isShown (priv_applyMobile s) = isShown s
         \<and> isShown (priv_applyDesktop s) = isShown s
         \<and> isShown (priv_applySidebar s) = isShown s
         \<and> (list_all viewport_event vs \<longrightarrow> isShown (run vs s) = isShown s)
         \<and> (isMobile s = Some True \<and> isShown s = Some True
              \<and> breakpoint opts \<le> w1 \<and> w2 < breakpoint opts \<longrightarrow>
             (let s2 = run [Resize w1, Frame, Resize w2, Frame] s;
                  settled = fx_settle Overlay (fx_settle Navbar (page s2))
              in isMobile s2 = Some True \<and> isShown s2 = Some True
                 \<and> elem_style (page s2) Navbar ''left'' = Some (Lit ''0'')
                 \<and> elem_style (page s2) Overlay ''display'' = None
                 \<and> elem_style settled Navbar ''left'' \<in> {Some (Lit ''0''), Some (Px 0)}
                 \<and> elem_style settled Overlay ''display'' = None))"
proof -
  have c: "consistent opts s"
    unfolding assms(2) using assms(1) by (rule reachable_consistent)
  have v: "list_all viewport_event vs \<longrightarrow> isShown (run vs s) = isShown s"
    using viewport_run_isShown [OF c] by simp
  have x: "let s2 = run [Resize w1, Frame, Resize w2, Frame] s;
               settled = fx_settle Overlay (fx_settle Navbar (page s2))
           in isMobile s2 = Some True \<and> isShown s2 = Some True
              \<and> elem_style (page s2) Navbar ''left'' = Some (Lit ''0'')
              \<and> elem_style (page s2) Overlay ''display'' = None
              \<and> elem_style settled Navbar ''left'' \<in> {Some (Lit ''0''), Some (Px 0)}
              \<and> elem_style settled Overlay ''display'' = None"
    if h: "isMobile s = Some True" "isShown s = Some True" "breakpoint opts \<le> w1"
      "w2 < breakpoint opts"
  proof -
    obtain t where t: "run [Resize w1, Frame, Resize w2, Frame] s = priv_applyMobile t"
      "isShown t = isShown s" "isMobile t = Some True" "options t = opts"
      "elem_fx (page t) = elem_fx (page s)"
      using cross_and_back [OF c h(1) h(3) h(4)] by blast
    define P where "P = page (priv_applyMobile t)"
    have l: "elem_style P Navbar ''left'' = Some (Lit ''0'')"
      and d: "elem_style P Overlay ''display'' = None"
      using t(2) h(2) by (simp_all add: P_def applyMobile_styles truthy_def)
    have qn: "elem_fx P Navbar = [] \<or> elem_fx P Navbar
                = [Animate ''left'' 0 (duration opts) (easing opts)]"
      and qo: "elem_fx P Overlay = [] \<or> elem_fx P Overlay = [FadeIn (duration opts) (easing opts)]"
      using c h(2) t(5)
      by (auto simp: P_def consistent_def fx_ok_def panel_anim_def overlay_anim_def truthy_def)
    define Q where "Q = fx_settle Navbar P"
    have Q: "elem_style Q Navbar ''left'' \<in> {Some (Lit ''0''), Some (Px 0)}"
      "elem_style Q Overlay ''display'' = None" "elem_fx Q Overlay = elem_fx P Overlay"
      using qn l d by (auto simp: Q_def fx_settle_single fx_settle_empty)
    have "elem_style (fx_settle Overlay Q) Navbar ''left'' \<in> {Some (Lit ''0''), Some (Px 0)}"
      "elem_style (fx_settle Overlay Q) Overlay ''display'' = None"
      using qo Q by (auto simp: fx_settle_single fx_settle_empty)
    then show ?thesis
      using l d t h(2) by (simp add: Let_def P_def Q_def)
  qed
  show ?thesis
    using v x by simp
qed


text \<open>
  The theorem at the default configuration, created at 1000 pixels and opened by a click
  on the toggle control (the animations still in flight), then resized to 1400 and back.
\<close>

theorem isShown_kept_by_layout_witness:
  "pristine (blank_page 1000)
   \<and> list_all viewport_event [Resize 1400, Frame]
   \<and> isMobile (run [Click Navbtn] (priv_create default_options (blank_page 1000))) = Some True
   \<and> isShown (run [Click Navbtn] (priv_create default_options (blank_page 1000))) = Some True
   \<and> breakpoint default_options \<le> 1400 \<and> 1000 < breakpoint default_options
   \<and> isShown (run [Resize 1400, Frame]
                (run [Click Navbtn] (priv_create default_options (blank_page 1000))))
       = Some True
   \<and> (let s2 = run [Resize 1400, Frame, Resize 1000, Frame]
                  (run [Click Navbtn] (priv_create default_options (blank_page 1000)));
           settled = fx_settle Overlay (fx_settle Navbar (page s2))
       in isMobile s2 = Some True \<and> isShown s2 = Some True
          \<and> elem_style (page s2) Navbar ''left'' = Some (Lit ''0'')
          \<and> elem_style (page s2) Overlay ''display'' = None
          \<and> elem_style settled Navbar ''left'' \<in> {Some (Lit ''0''), Some (Px 0)}
          \<and> elem_style settled Overlay ''display'' = None)"
proof -
  define c where "c = priv_create default_options (blank_page 1000)"
  have h1: "pristine (blank_page 1000)"
    by simp
  have cc: "consistent default_options c"
    unfolding c_def using h1 by (rule create_consistent)
  have "run [Click Navbtn] c = priv_open c"
    using click_toggles [OF cc, of Navbtn]
    by (simp add: run_def priv_onToggle_def truthy_def c_def)
  then have h2: "isMobile (run [Click Navbtn] c) = Some True"
    and h3: "isShown (run [Click Navbtn] c) = Some True"
    by (simp_all add: c_def)
  show ?thesis
    using h1 h2 h3
      isShown_kept_by_layout [where p = "blank_page 1000" and opts = default_options
        and evs = "[Click Navbtn]" and s = "run [Click Navbtn] c"
        and vs = "[Resize 1400, Frame]" and ?w1.0 = 1400 and ?w2.0 = 1000]
    unfolding c_def by simp
qed

subsection \<open>Reachable states are consistent (the earlier file)\<close>

lemmas apply_defs_v100 = priv_applyMobileLayout_def priv_applyDesktopLayout_def
  in_order_v100_def on_page_v100_def Let_def

lemmas inv_defs_v100 =
  consistent_v100_def raf_ok_def fx_ok_v100_def panel_anim_v100_def overlay_anim_v100_def

lemma priv_applyMobileLayout_fields [simp]:
  "options_v100 (priv_applyMobileLayout s) = options_v100 s"
  "navbarOpen (priv_applyMobileLayout s) = navbarOpen s"
  "navbarWidth (priv_applyMobileLayout s) = navbarWidth s"
  "isMobile_v100 (priv_applyMobileLayout s) = isMobile_v100 s"
  "resizeAnimationFrame_v100 (priv_applyMobileLayout s) = resizeAnimationFrame_v100 s"
  "window_width (page_v100 (priv_applyMobileLayout s)) = window_width (page_v100 s)"
  "elem_fx (page_v100 (priv_applyMobileLayout s)) = elem_fx (page_v100 s)"
  "raf_pending (page_v100 (priv_applyMobileLayout s)) = raf_pending (page_v100 s)"
  "raf_next (page_v100 (priv_applyMobileLayout s)) = raf_next (page_v100 s)"
  "listeners (page_v100 (priv_applyMobileLayout s)) = listeners (page_v100 s)"
  by (simp_all add: apply_defs_v100)

lemma priv_applyDesktopLayout_fields [simp]:
  "options_v100 (priv_applyDesktopLayout s) = options_v100 s"
  "navbarOpen (priv_applyDesktopLayout s) = navbarOpen s"
  "navbarWidth (priv_applyDesktopLayout s) = navbarWidth s"
  "isMobile_v100 (priv_applyDesktopLayout s) = isMobile_v100 s"
  "resizeAnimationFrame_v100 (priv_applyDesktopLayout s) = resizeAnimationFrame_v100 s"
  "window_width (page_v100 (priv_applyDesktopLayout s)) = window_width (page_v100 s)"
  "elem_fx (page_v100 (priv_applyDesktopLayout s)) = elem_fx (page_v100 s)"
  "raf_pending (page_v100 (priv_applyDesktopLayout s)) = raf_pending (page_v100 s)"
  "raf_next (page_v100 (priv_applyDesktopLayout s)) = raf_next (page_v100 s)"
  "listeners (page_v100 (priv_applyDesktopLayout s)) = listeners (page_v100 s)"
  by (simp_all add: apply_defs_v100)

lemma priv_resizeLayout_fields [simp]:
  "options_v100 (priv_resizeLayout s) = options_v100 s"
  "navbarOpen (priv_resizeLayout s) = navbarOpen s"
  "navbarWidth (priv_resizeLayout s) = navbarWidth s"
  "isMobile_v100 (priv_resizeLayout s)
     = Some (window_width (page_v100 s) < breakpoint_v100 (options_v100 s))"
  "resizeAnimationFrame_v100 (priv_resizeLayout s) = resizeAnimationFrame_v100 s"
  "window_width (page_v100 (priv_resizeLayout s)) = window_width (page_v100 s)"
  "elem_fx (page_v100 (priv_resizeLayout s)) = elem_fx (page_v100 s)"
  "raf_pending (page_v100 (priv_resizeLayout s)) = raf_pending (page_v100 s)"
  "raf_next (page_v100 (priv_resizeLayout s)) = raf_next (page_v100 s)"
  "listeners (page_v100 (priv_resizeLayout s)) = listeners (page_v100 s)"
  by (simp_all add: priv_resizeLayout_def Let_def)

lemma priv_onResize_v100_fields [simp]:
  "options_v100 (priv_onResize_v100 s) = options_v100 s"
  "navbarOpen (priv_onResize_v100 s) = navbarOpen s"
  "navbarWidth (priv_onResize_v100 s) = navbarWidth s"
  "isMobile_v100 (priv_onResize_v100 s) = isMobile_v100 s"
  "window_width (page_v100 (priv_onResize_v100 s)) = window_width (page_v100 s)"
  "elem_classes (page_v100 (priv_onResize_v100 s)) = elem_classes (page_v100 s)"
  "elem_style (page_v100 (priv_onResize_v100 s)) = elem_style (page_v100 s)"
  "elem_fx (page_v100 (priv_onResize_v100 s)) = elem_fx (page_v100 s)"
  "listeners (page_v100 (priv_onResize_v100 s)) = listeners (page_v100 s)"
  "dom_writes (page_v100 (priv_onResize_v100 s)) = dom_writes (page_v100 s)"
  by (simp_all add: priv_onResize_v100_def on_page_v100_def requestAnimationFrame_def
      cancelAnimationFrame_def Let_def)

lemma onResize_v100_pending:
  assumes "raf_ok (resizeAnimationFrame_v100 s) (page_v100 s)"
  shows "raf_pending (page_v100 (priv_onResize_v100 s)) = [raf_next (page_v100 s)]"
    and "resizeAnimationFrame_v100 (priv_onResize_v100 s) = Some (raf_next (page_v100 s))"
    and "raf_next (page_v100 (priv_onResize_v100 s)) = Suc (raf_next (page_v100 s))"
  using assms
  by (auto simp: priv_onResize_v100_def on_page_v100_def requestAnimationFrame_def
      cancelAnimationFrame_def truthy_handle_def raf_ok_def Let_def split: list.splits)

lemma priv_openNavbar_fields [simp]:
  "options_v100 (priv_openNavbar s) = options_v100 s"
  "navbarOpen (priv_openNavbar s) = True"
  "navbarWidth (priv_openNavbar s) = navbarWidth s"
  "isMobile_v100 (priv_openNavbar s) = isMobile_v100 s"
  "resizeAnimationFrame_v100 (priv_openNavbar s) = resizeAnimationFrame_v100 s"
  "window_width (page_v100 (priv_openNavbar s)) = window_width (page_v100 s)"
  "raf_pending (page_v100 (priv_openNavbar s)) = raf_pending (page_v100 s)"
  "raf_next (page_v100 (priv_openNavbar s)) = raf_next (page_v100 s)"
  "listeners (page_v100 (priv_openNavbar s)) = listeners (page_v100 s)"
  "elem_fx (page_v100 (priv_openNavbar s)) =
     (elem_fx (page_v100 s))
       (Navbar := requeue (elem_fx (page_v100 s) Navbar)
                    (Animate ''left'' 0 (duration_v100 (options_v100 s))
                       (easing_v100 (options_v100 s))),
        Overlay := requeue (elem_fx (page_v100 s) Overlay)
                     (FadeIn (duration_v100 (options_v100 s)) (easing_v100 (options_v100 s))))"
  by (simp_all add: priv_openNavbar_def in_order_v100_def on_page_v100_def fx_defs requeue_def
      Let_def)

lemma priv_closeNavbar_fields [simp]:
  "options_v100 (priv_closeNavbar s) = options_v100 s"
  "navbarOpen (priv_closeNavbar s) = False"
  "navbarWidth (priv_closeNavbar s) = navbarWidth s"
  "isMobile_v100 (priv_closeNavbar s) = isMobile_v100 s"
  "resizeAnimationFrame_v100 (priv_closeNavbar s) = resizeAnimationFrame_v100 s"
  "window_width (page_v100 (priv_closeNavbar s)) = window_width (page_v100 s)"
  "raf_pending (page_v100 (priv_closeNavbar s)) = raf_pending (page_v100 s)"
  "raf_next (page_v100 (priv_closeNavbar s)) = raf_next (page_v100 s)"
  "listeners (page_v100 (priv_closeNavbar s)) = listeners (page_v100 s)"
  "elem_fx (page_v100 (priv_closeNavbar s)) =
     (elem_fx (page_v100 s))
       (Navbar := requeue (elem_fx (page_v100 s) Navbar)
                    (Animate ''left'' (- navbarWidth s) (duration_v100 (options_v100 s))
                       (easing_v100 (options_v100 s))),
        Overlay := requeue (elem_fx (page_v100 s) Overlay)
                     (FadeOut (duration_v100 (options_v100 s)) (easing_v100 (options_v100 s))))"
  by (simp_all add: priv_closeNavbar_def in_order_v100_def on_page_v100_def fx_defs requeue_def
      Let_def)

lemma fire_resize_v100:
  "listeners (page_v100 s) = widget_listeners \<Longrightarrow>
   fire_v100 Window ''resize'' s = priv_onResize_v100 s"
  by (simp add: fire_v100_def widget_listeners_def handle_v100_def)

lemma fire_click_v100:
  "listeners (page_v100 s) = widget_listeners \<Longrightarrow>
   fire_v100 (El e) ''click'' s
     = (if e = Navbtn \<or> e = Overlay then priv_onToggle_v100 s else s)"
  by (cases e) (simp_all add: fire_v100_def widget_listeners_def handle_v100_def)

lemma frame_v100_cases:
  "raf_ok h (page_v100 s) \<Longrightarrow>
   frame_v100 s = (if raf_pending (page_v100 s) = [] then s
                   else priv_resizeLayout (on_page_v100 (\<lambda>p. p\<lparr>raf_pending := []\<rparr>) s))"
  by (auto simp: frame_v100_def raf_ok_def on_page_v100_def split: list.splits)

lemma resizeLayout_consistent:
  "consistent_v100 opts s \<Longrightarrow> consistent_v100 opts (priv_resizeLayout s)"
  by (auto simp: inv_defs_v100)

lemma onResize_v100_consistent:
  "consistent_v100 opts s \<Longrightarrow> consistent_v100 opts (priv_onResize_v100 s)"
  using onResize_v100_pending [of s] by (auto simp: inv_defs_v100)

lemma openNavbar_consistent:
  "consistent_v100 opts s \<Longrightarrow> consistent_v100 opts (priv_openNavbar s)"
  by (auto simp: inv_defs_v100 split: if_splits)

lemma closeNavbar_consistent:
  "consistent_v100 opts s \<Longrightarrow> consistent_v100 opts (priv_closeNavbar s)"
  by (auto simp: inv_defs_v100 split: if_splits)

lemma fx_done_consistent_v100:
  "consistent_v100 opts s \<Longrightarrow> consistent_v100 opts (on_page_v100 (fx_done e) s)"
  by (cases e) (auto simp: inv_defs_v100 on_page_v100_def)

lemma width_consistent_v100:
  "consistent_v100 opts s \<Longrightarrow>
   consistent_v100 opts (on_page_v100 (\<lambda>p. p\<lparr>window_width := w\<rparr>) s)"
  by (auto simp: inv_defs_v100 on_page_v100_def)

lemma unpend_consistent_v100:
  "consistent_v100 opts s \<Longrightarrow>
   consistent_v100 opts (on_page_v100 (\<lambda>p. p\<lparr>raf_pending := []\<rparr>) s)"
  by (auto simp: inv_defs_v100 on_page_v100_def)

lemma step_consistent_v100:
  "consistent_v100 opts s \<Longrightarrow> consistent_v100 opts (step_v100 ev s)"
proof (cases ev)
  case (Resize_v100 w)
  assume c: "consistent_v100 opts s"
  have "listeners (page_v100 (on_page_v100 (\<lambda>p. p\<lparr>window_width := w\<rparr>) s)) = widget_listeners"
    using width_consistent_v100 [OF c] by (simp add: consistent_v100_def)
  then show ?thesis
    using Resize_v100 onResize_v100_consistent [OF width_consistent_v100 [OF c]]
    by (simp add: fire_resize_v100)
next
  case Frame_v100
  assume c: "consistent_v100 opts s"
  then have "raf_ok (resizeAnimationFrame_v100 s) (page_v100 s)"
    by (simp add: consistent_v100_def)
  then show ?thesis
    using Frame_v100 c resizeLayout_consistent [OF unpend_consistent_v100 [OF c]]
    by (simp add: frame_v100_cases)
next
  case (Click_v100 e)
  assume c: "consistent_v100 opts s"
  then have "listeners (page_v100 s) = widget_listeners"
    by (simp add: consistent_v100_def)
  then show ?thesis
    using Click_v100 c openNavbar_consistent [OF c] closeNavbar_consistent [OF c]
    by (simp add: fire_click_v100 priv_onToggle_v100_def)
next
  case (FxDone_v100 e)
  then show "consistent_v100 opts s \<Longrightarrow> ?thesis"
    by (simp add: fx_done_consistent_v100)
qed

lemma run_consistent_v100:
  "consistent_v100 opts s \<Longrightarrow> consistent_v100 opts (run_v100 evs s)"
  unfolding run_v100_def by (induction evs arbitrary: s) (simp_all add: step_consistent_v100)

lemma create_consistent_v100: "pristine p \<Longrightarrow> consistent_v100 opts (priv_create_v100 opts p)"
  by (simp add: priv_create_v100_def priv_initEvents_v100_def priv_on_v100_def
      priv_initWidget_def on_page_v100_def pristine_def inv_defs_v100 widget_listeners_def)

lemma reachable_consistent_v100:
  "pristine p \<Longrightarrow> consistent_v100 opts (run_v100 evs (priv_create_v100 opts p))"
  by (simp add: run_consistent_v100 create_consistent_v100)

subsection \<open>Bursts of resize notifications\<close>

lemma resize_step:
  assumes "consistent opts s"
  shows "step (Resize w) s = priv_onResize (at_width w s)"
    and "raf_pending (page (step (Resize w) s)) = [raf_next (page s)]"
    and "resizeAnimationFrame (step (Resize w) s) = Some (raf_next (page s))"
    and "window_width (page (step (Resize w) s)) = w"
proof -
  have c: "consistent opts (at_width w s)"
    unfolding at_width_def using assms by (rule width_consistent)
  then have l: "listeners (page (at_width w s)) = widget_listeners"
    and r: "raf_ok (resizeAnimationFrame (at_width w s)) (page (at_width w s))"
    by (simp_all add: consistent_def)
  show 1: "step (Resize w) s = priv_onResize (at_width w s)"
    using l by (simp add: fire_resize at_width_def)
  show "raf_pending (page (step (Resize w) s)) = [raf_next (page s)]"
    and "resizeAnimationFrame (step (Resize w) s) = Some (raf_next (page s))"
    and "window_width (page (step (Resize w) s)) = w"
    unfolding 1 using onResize_pending [OF r] by simp_all
qed

lemma burst:
  "consistent opts s \<Longrightarrow>
   consistent opts (run (map Resize (w # ws)) s)
   \<and> (\<exists>h. raf_pending (page (run (map Resize (w # ws)) s)) = [h]
          \<and> resizeAnimationFrame (run (map Resize (w # ws)) s) = Some h)
   \<and> window_width (page (run (map Resize (w # ws)) s)) = last (w # ws)"
proof (induction ws arbitrary: s w)
  case Nil
  then show ?case
    using resize_step [OF Nil, of w] step_consistent [OF Nil, of "Resize w"]
    by (simp add: run_def)
next
  case (Cons v ws)
  have "run (map Resize (w # v # ws)) s = run (map Resize (v # ws)) (step (Resize w) s)"
    by (simp add: run_def)
  then show ?case
    using Cons.IH [OF step_consistent [OF Cons.prems, of "Resize w"], of v] by simp
qed

lemma frame_after_burst:
  assumes "consistent opts b" and "raf_pending (page b) = [h]"
  shows "step Frame b = priv_resize (on_page (\<lambda>p. p\<lparr>raf_pending := []\<rparr>) b)"
    and "raf_pending (page (step Frame b)) = []"
proof -
  have "raf_ok (resizeAnimationFrame b) (page b)"
    using assms(1) by (simp add: consistent_def)
  then show 1: "step Frame b = priv_resize (on_page (\<lambda>p. p\<lparr>raf_pending := []\<rparr>) b)"
    using assms(2) by (simp add: frame_cases)
  show "raf_pending (page (step Frame b)) = []"
    unfolding 1 by (simp add: on_page_def)
qed

lemma resize_step_v100:
  assumes "consistent_v100 opts s"
  shows "step_v100 (Resize_v100 w) s = priv_onResize_v100 (at_width_v100 w s)"
    and "raf_pending (page_v100 (step_v100 (Resize_v100 w) s)) = [raf_next (page_v100 s)]"
    and "resizeAnimationFrame_v100 (step_v100 (Resize_v100 w) s) = Some (raf_next (page_v100 s))"
    and "window_width (page_v100 (step_v100 (Resize_v100 w) s)) = w"
proof -
  have c: "consistent_v100 opts (at_width_v100 w s)"
    unfolding at_width_v100_def using assms by (rule width_consistent_v100)
  then have l: "listeners (page_v100 (at_width_v100 w s)) = widget_listeners"
    and r: "raf_ok (resizeAnimationFrame_v100 (at_width_v100 w s)) (page_v100 (at_width_v100 w s))"
    by (simp_all add: consistent_v100_def)
  show 1: "step_v100 (Resize_v100 w) s = priv_onResize_v100 (at_width_v100 w s)"
    using l by (simp add: fire_resize_v100 at_width_v100_def)
  show "raf_pending (page_v100 (step_v100 (Resize_v100 w) s)) = [raf_next (page_v100 s)]"
    and "resizeAnimationFrame_v100 (step_v100 (Resize_v100 w) s) = Some (raf_next (page_v100 s))"
    and "window_width (page_v100 (step_v100 (Resize_v100 w) s)) = w"
    unfolding 1 using onResize_v100_pending [OF r]
    by (simp_all add: at_width_v100_def on_page_v100_def)
qed

lemma burst_v100:
  "consistent_v100 opts s \<Longrightarrow>
   consistent_v100 opts (run_v100 (map Resize_v100 (w # ws)) s)
   \<and> (\<exists>h. raf_pending (page_v100 (run_v100 (map Resize_v100 (w # ws)) s)) = [h]
          \<and> resizeAnimationFrame_v100 (run_v100 (map Resize_v100 (w # ws)) s) = Some h)
   \<and> window_width (page_v100 (run_v100 (map Resize_v100 (w # ws)) s)) = last (w # ws)"
proof (induction ws arbitrary: s w)
  case Nil
  then show ?case
    using resize_step_v100 [OF Nil, of w] step_consistent_v100 [OF Nil, of "Resize_v100 w"]
    by (simp add: run_v100_def)
next
  case (Cons v ws)
  have "run_v100 (map Resize_v100 (w # v # ws)) s
          = run_v100 (map Resize_v100 (v # ws)) (step_v100 (Resize_v100 w) s)"
    by (simp add: run_v100_def)
  then show ?case
    using Cons.IH [OF step_consistent_v100 [OF Cons.prems, of "Resize_v100 w"], of v] by simp
qed

lemma frame_after_burst_v100:
  assumes "consistent_v100 opts b" and "raf_pending (page_v100 b) = [h]"
  shows "step_v100 Frame_v100 b
           = priv_resizeLayout (on_page_v100 (\<lambda>p. p\<lparr>raf_pending := []\<rparr>) b)"
    and "raf_pending (page_v100 (step_v100 Frame_v100 b)) = []"
proof -
  have "raf_ok (resizeAnimationFrame_v100 b) (page_v100 b)"
    using assms(1) by (simp add: consistent_v100_def)
  then show 1: "step_v100 Frame_v100 b
                  = priv_resizeLayout (on_page_v100 (\<lambda>p. p\<lparr>raf_pending := []\<rparr>) b)"
    using assms(2) by (simp add: frame_v100_cases)
  show "raf_pending (page_v100 (step_v100 Frame_v100 b)) = []"
    unfolding 1 by (simp add: on_page_v100_def)
qed

lemma consistent_pending:
  "consistent opts s \<Longrightarrow> length (raf_pending (page s)) \<le> 1"
  by (auto simp: consistent_def raf_ok_def split: list.splits)

lemma consistent_pending_v100:
  "consistent_v100 opts s \<Longrightarrow> length (raf_pending (page_v100 s)) \<le> 1"
  by (auto simp: consistent_v100_def raf_ok_def split: list.splits)

text \<open>
  \<^bold>\<open>C8.\<close> In every state a created widget can reach (both files) at most one frame
  callback is pending, so a frame runs the layout evaluation at most once. A resize
  notification leaves exactly the freshly requested callback pending (the one pending
  before it is cancelled). After a burst of one or more resize notifications exactly one
  callback is pending, the one whose handle the widget holds; the next frame runs the
  layout evaluation once, at the last width of the burst, and leaves nothing pending.
\<close>

theorem resize_debounced:
  assumes "pristine p"
  shows "(let s = run evs (priv_create opts p); b = run (map Resize (w # ws)) s
          in length (raf_pending (page s)) \<le> 1
             \<and> step Frame s = (if raf_pending (page s) = [] then s
                               else priv_resize (on_page (\<lambda>p. p\<lparr>raf_pending := []\<rparr>) s))
             \<and> raf_pending (page (step (Resize w) s)) = [raf_next (page s)]
             \<and> length (raf_pending (page b)) = 1
             \<and> resizeAnimationFrame b = Some (hd (raf_pending (page b)))
             \<and> window_width (page b) = last (w # ws)
             \<and> step Frame b = priv_resize (on_page (\<lambda>p. p\<lparr>raf_pending := []\<rparr>) b)
             \<and> raf_pending (page (step Frame b)) = [])
         \<and> (let s = run_v100 evs' (priv_create_v100 opts' p);
                 b = run_v100 (map Resize_v100 (w # ws)) s
             in length (raf_pending (page_v100 s)) \<le> 1
                \<and> step_v100 Frame_v100 s
                    = (if raf_pending (page_v100 s) = [] then s
                       else priv_resizeLayout (on_page_v100 (\<lambda>p. p\<lparr>raf_pending := []\<rparr>) s))
                \<and> raf_pending (page_v100 (step_v100 (Resize_v100 w) s)) = [raf_next (page_v100 s)]
                \<and> length (raf_pending (page_v100 b)) = 1
                \<and> resizeAnimationFrame_v100 b = Some (hd (raf_pending (page_v100 b)))
                \<and> window_width (page_v100 b) = last (w # ws)
                \<and> step_v100 Frame_v100 b
                    = priv_resizeLayout (on_page_v100 (\<lambda>p. p\<lparr>raf_pending := []\<rparr>) b)
                \<and> raf_pending (page_v100 (step_v100 Frame_v100 b)) = [])"
proof -
  define s where "s = run evs (priv_create opts p)"
  define b where "b = run (map Resize (w # ws)) s"
  have c: "consistent opts s"
    unfolding s_def using assms by (rule reachable_consistent)
  then have r: "raf_ok (resizeAnimationFrame s) (page s)"
    by (simp add: consistent_def)
  obtain h where b: "consistent opts b" "raf_pending (page b) = [h]"
    "resizeAnimationFrame b = Some h" "window_width (page b) = last (w # ws)"
    using burst [OF c, of w ws] unfolding b_def by blast
  have new: "length (raf_pending (page s)) \<le> 1
             \<and> step Frame s = (if raf_pending (page s) = [] then s
                               else priv_resize (on_page (\<lambda>p. p\<lparr>raf_pending := []\<rparr>) s))
             \<and> raf_pending (page (step (Resize w) s)) = [raf_next (page s)]
             \<and> length (raf_pending (page b)) = 1
             \<and> resizeAnimationFrame b = Some (hd (raf_pending (page b)))
             \<and> window_width (page b) = last (w # ws)
             \<and> step Frame b = priv_resize (on_page (\<lambda>p. p\<lparr>raf_pending := []\<rparr>) b)
             \<and> raf_pending (page (step Frame b)) = []"
    using consistent_pending [OF c] frame_cases [OF r] resize_step(2) [OF c, of w] b(2,3,4)
      frame_after_burst [OF b(1,2)]
    by simp
  define s' where "s' = run_v100 evs' (priv_create_v100 opts' p)"
  define b' where "b' = run_v100 (map Resize_v100 (w # ws)) s'"
  have c': "consistent_v100 opts' s'"
    unfolding s'_def using assms by (rule reachable_consistent_v100)
  then have r': "raf_ok (resizeAnimationFrame_v100 s') (page_v100 s')"
    by (simp add: consistent_v100_def)
  obtain h' where b': "consistent_v100 opts' b'" "raf_pending (page_v100 b') = [h']"
    "resizeAnimationFrame_v100 b' = Some h'" "window_width (page_v100 b') = last (w # ws)"
    using burst_v100 [OF c', of w ws] unfolding b'_def by blast
  have old: "length (raf_pending (page_v100 s')) \<le> 1
             \<and> step_v100 Frame_v100 s'
                 = (if raf_pending (page_v100 s') = [] then s'
                    else priv_resizeLayout (on_page_v100 (\<lambda>p. p\<lparr>raf_pending := []\<rparr>) s'))
             \<and> raf_pending (page_v100 (step_v100 (Resize_v100 w) s')) = [raf_next (page_v100 s')]
             \<and> length (raf_pending (page_v100 b')) = 1
             \<and> resizeAnimationFrame_v100 b' = Some (hd (raf_pending (page_v100 b')))
             \<and> window_width (page_v100 b') = last (w # ws)
             \<and> step_v100 Frame_v100 b'
                 = priv_resizeLayout (on_page_v100 (\<lambda>p. p\<lparr>raf_pending := []\<rparr>) b')
             \<and> raf_pending (page_v100 (step_v100 Frame_v100 b')) = []"
    using consistent_pending_v100 [OF c'] frame_v100_cases [OF r'] resize_step_v100(2) [OF c', of w]
      b'(2,3,4) frame_after_burst_v100 [OF b'(1,2)]
    by simp
  show ?thesis
    using new old unfolding Let_def b_def s_def b'_def s'_def by blast
qed

text \<open>
  The theorem for the default configurations created on an empty page 1300 pixels wide
  and a burst of three resize notifications, to 1100, 1000 and 900 pixels.
\<close>

theorem resize_debounced_witness:
  "pristine (blank_page 1300)
   \<and> ((let s = run [] (priv_create default_options (blank_page 1300));
            b = run (map Resize [1100, 1000, 900]) s
        in length (raf_pending (page s)) \<le> 1
           \<and> step Frame s = (if raf_pending (page s) = [] then s
                             else priv_resize (on_page (\<lambda>p. p\<lparr>raf_pending := []\<rparr>) s))
           \<and> raf_pending (page (step (Resize 1100) s)) = [raf_next (page s)]
           \<and> length (raf_pending (page b)) = 1
           \<and> resizeAnimationFrame b = Some (hd (raf_pending (page b)))
           \<and> window_width (page b) = last [1100, 1000, 900]
           \<and> step Frame b = priv_resize (on_page (\<lambda>p. p\<lparr>raf_pending := []\<rparr>) b)
           \<and> raf_pending (page (step Frame b)) = [])
       \<and> (let s = run_v100 [] (priv_create_v100 default_options_v100 (blank_page 1300));
               b = run_v100 (map Resize_v100 [1100, 1000, 900]) s
           in length (raf_pending (page_v100 s)) \<le> 1
              \<and> step_v100 Frame_v100 s
                  = (if raf_pending (page_v100 s) = [] then s
                     else priv_resizeLayout (on_page_v100 (\<lambda>p. p\<lparr>raf_pending := []\<rparr>) s))
              \<and> raf_pending (page_v100 (step_v100 (Resize_v100 1100) s))
                  = [raf_next (page_v100 s)]
              \<and> length (raf_pending (page_v100 b)) = 1
              \<and> resizeAnimationFrame_v100 b = Some (hd (raf_pending (page_v100 b)))
              \<and> window_width (page_v100 b) = last [1100, 1000, 900]
              \<and> step_v100 Frame_v100 b
                  = priv_resizeLayout (on_page_v100 (\<lambda>p. p\<lparr>raf_pending := []\<rparr>) b)
              \<and> raf_pending (page_v100 (step_v100 Frame_v100 b)) = []))
   \<and> last [1100, 1000, 900] = (900::int)"
proof -
  have h: "pristine (blank_page 1300)"
    by simp
  have l: "last [1100, 1000, 900] = (900::int)"
    by simp
  from h resize_debounced [OF h] l show ?thesis
    by blast
qed

subsection \<open>Counting the writes\<close>

lemma dom_writes_ops [simp]:
  "dom_writes (addClass e c p) = (if tokens c = [] then dom_writes p else Suc (dom_writes p))"
  "dom_writes (removeClass e c p)
     = (if tokens c = [] then dom_writes p else Suc (dom_writes p))"
  "dom_writes (css e props p) = Suc (dom_writes p)"
  "dom_writes (hide e p) = Suc (dom_writes p)"
  "dom_writes (show_elem e p) = Suc (dom_writes p)"
  by (simp_all add: jq_defs)

lemma apply_writes:
  "dom_writes (page s) < dom_writes (page (priv_applyMobile s))"
  "dom_writes (page s) < dom_writes (page (priv_applyDesktop s))"
  "dom_writes (page s) < dom_writes (page (priv_applySidebar s))"
  by (simp_all add: apply_defs)

lemma apply_writes_v100:
  "dom_writes (page_v100 s) < dom_writes (page_v100 (priv_applyMobileLayout s))"
  "dom_writes (page_v100 s) < dom_writes (page_v100 (priv_applyDesktopLayout s))"
  by (simp_all add: apply_defs_v100 toggleClass_def toggle_elem_def)

lemma first_resize_writes:
  "isMobile s = None \<Longrightarrow> dom_writes (page s) < dom_writes (page (priv_resize s))"
  using apply_writes [of "s\<lparr>isMobile := Some True\<rparr>"]
    apply_writes [of "s\<lparr>isMobile := Some False\<rparr>"]
  by (simp add: priv_resize_def Let_def)

lemma first_resizeLayout_writes:
  "isMobile_v100 s = None \<Longrightarrow>
   dom_writes (page_v100 s) < dom_writes (page_v100 (priv_resizeLayout s))"
  using apply_writes_v100 [of "s\<lparr>isMobile_v100 := Some True\<rparr>"]
    apply_writes_v100 [of "s\<lparr>isMobile_v100 := Some False\<rparr>"]
  by (simp add: priv_resizeLayout_def Let_def)

lemma resize_same_side:
  "isMobile s = Some (window_width (page s) < breakpoint (options s)) \<Longrightarrow> priv_resize s = s"
  by (simp add: priv_resize_def)

lemma resizeLayout_same_side:
  "isMobile_v100 s = Some (window_width (page_v100 s) < breakpoint_v100 (options_v100 s)) \<Longrightarrow>
   priv_resizeLayout s = s"
  by (simp add: priv_resizeLayout_def)

lemma at_width_v100_fields [simp]:
  "options_v100 (at_width_v100 w s) = options_v100 s"
  "navbarOpen (at_width_v100 w s) = navbarOpen s"
  "navbarWidth (at_width_v100 w s) = navbarWidth s"
  "isMobile_v100 (at_width_v100 w s) = isMobile_v100 s"
  "resizeAnimationFrame_v100 (at_width_v100 w s) = resizeAnimationFrame_v100 s"
  "window_width (page_v100 (at_width_v100 w s)) = w"
  "elem_classes (page_v100 (at_width_v100 w s)) = elem_classes (page_v100 s)"
  "elem_style (page_v100 (at_width_v100 w s)) = elem_style (page_v100 s)"
  "elem_fx (page_v100 (at_width_v100 w s)) = elem_fx (page_v100 s)"
  "raf_pending (page_v100 (at_width_v100 w s)) = raf_pending (page_v100 s)"
  "raf_next (page_v100 (at_width_v100 w s)) = raf_next (page_v100 s)"
  "listeners (page_v100 (at_width_v100 w s)) = listeners (page_v100 s)"
  "dom_writes (page_v100 (at_width_v100 w s)) = dom_writes (page_v100 s)"
  by (simp_all add: at_width_v100_def on_page_v100_def)

text \<open>
  \<^bold>\<open>C2.\<close> In both files the stored mode starts undefined, and a layout evaluation that
  finds it undefined applies a mode whatever the width: it stores the mode of the
  current width, runs that mode's application, and writes to the DOM. So does creation,
  whose first evaluation this is. After an evaluation at width \<open>w1\<close>, an evaluation at
  a width \<open>w2\<close> on the same side of the breakpoint changes nothing: the state is the one
  before it, no jQuery call is made, classes and inline styles are as they were.
\<close>

theorem first_evaluation_applies_then_idempotent:
  "(isMobile s = None \<longrightarrow>
      priv_resize s
        = (let m = (window_width (page s) < breakpoint (options s));
               s' = s\<lparr>isMobile := Some m\<rparr>
           in if m then priv_applyMobile s'
              else if sidebar (options s) then priv_applySidebar s' else priv_applyDesktop s')
      \<and> dom_writes (page s) < dom_writes (page (priv_resize s)))
   \<and> ((w2 < breakpoint (options s)) = (w1 < breakpoint (options s)) \<longrightarrow>
        (let t = priv_resize (at_width w1 s); u = priv_resize (at_width w2 t)
         in u = at_width w2 t \<and> dom_writes (page u) = dom_writes (page t)
            \<and> elem_classes (page u) = elem_classes (page t)
            \<and> elem_style (page u) = elem_style (page t)))
   \<and> isMobile (priv_create opts p) = Some (window_width p < breakpoint opts)
   \<and> dom_writes p < dom_writes (page (priv_create opts p))
   \<and> (isMobile_v100 r = None \<longrightarrow>
        priv_resizeLayout r
          = (let m = (window_width (page_v100 r) < breakpoint_v100 (options_v100 r));
                 r' = r\<lparr>isMobile_v100 := Some m\<rparr>
             in if m then priv_applyMobileLayout r' else priv_applyDesktopLayout r')
        \<and> dom_writes (page_v100 r) < dom_writes (page_v100 (priv_resizeLayout r)))
   \<and> ((w2 < breakpoint_v100 (options_v100 r)) = (w1 < breakpoint_v100 (options_v100 r)) \<longrightarrow>
        (let t = priv_resizeLayout (at_width_v100 w1 r);
             u = priv_resizeLayout (at_width_v100 w2 t)
         in u = at_width_v100 w2 t \<and> dom_writes (page_v100 u) = dom_writes (page_v100 t)
            \<and> elem_classes (page_v100 u) = elem_classes (page_v100 t)
            \<and> elem_style (page_v100 u) = elem_style (page_v100 t)))
   \<and> isMobile_v100 (priv_create_v100 opts' p)
       = Some (window_width p < breakpoint_v100 opts')
   \<and> dom_writes p < dom_writes (page_v100 (priv_create_v100 opts' p))"
proof -
  have a: "priv_resize s
        = (let m = (window_width (page s) < breakpoint (options s));
               s' = s\<lparr>isMobile := Some m\<rparr>
           in if m then priv_applyMobile s'
              else if sidebar (options s) then priv_applySidebar s' else priv_applyDesktop s')"
    if "isMobile s = None"
    using that by (simp add: priv_resize_def Let_def)
  have b: "priv_resizeLayout r
          = (let m = (window_width (page_v100 r) < breakpoint_v100 (options_v100 r));
                 r' = r\<lparr>isMobile_v100 := Some m\<rparr>
             in if m then priv_applyMobileLayout r' else priv_applyDesktopLayout r')"
    if "isMobile_v100 r = None"
    using that by (simp add: priv_resizeLayout_def Let_def)
  have c: "priv_resize (at_width w2 (priv_resize (at_width w1 s)))
             = at_width w2 (priv_resize (at_width w1 s))"
    if "(w2 < breakpoint (options s)) = (w1 < breakpoint (options s))"
    using that by (intro resize_same_side) simp
  have d: "priv_resizeLayout (at_width_v100 w2 (priv_resizeLayout (at_width_v100 w1 r)))
             = at_width_v100 w2 (priv_resizeLayout (at_width_v100 w1 r))"
    if "(w2 < breakpoint_v100 (options_v100 r)) = (w1 < breakpoint_v100 (options_v100 r))"
    using that by (intro resizeLayout_same_side) simp
  have e: "dom_writes p < dom_writes (page (priv_create opts p))"
    using first_resize_writes
      [of "priv_on (El Overlay) ''click'' OnToggle
            (priv_on (El Navbtn) ''click'' OnToggle
              (priv_on Window ''resize'' OnResize
                \<lparr>options = opts, isMobile = None, isShown = None,
                 resizeAnimationFrame = None, page = p\<rparr>))"]
    by (simp add: priv_create_def priv_initEvents_def) (simp add: priv_on_def on_page_def)
  have f: "isMobile_v100 (priv_create_v100 opts' p)
             = Some (window_width p < breakpoint_v100 opts')"
    by (simp add: priv_create_v100_def priv_initEvents_v100_def priv_on_v100_def
        on_page_v100_def priv_initWidget_def)
  have g: "dom_writes p < dom_writes (page_v100 (priv_create_v100 opts' p))"
    using first_resizeLayout_writes
      [of "\<lparr>options_v100 = opts', navbarOpen = False, navbarWidth = navbar_outerWidth p,
           isMobile_v100 = None, resizeAnimationFrame_v100 = None, page_v100 = p\<rparr>"]
    by (simp add: priv_create_v100_def priv_initEvents_v100_def priv_on_v100_def
        on_page_v100_def priv_initWidget_def)
  show ?thesis
    using a b e f g first_resize_writes [of s] first_resizeLayout_writes [of r]
    by (simp add: Let_def c d)
qed

text \<open>
  The theorem at the instances as \<^verbatim>\<open>_create\<close> finds them (default options, an empty
  page 1300 pixels wide, the mode undefined), evaluated at 1300 and then at 1400 pixels.
\<close>

theorem first_evaluation_applies_then_idempotent_witness:
  "isMobile (new_widget default_options (blank_page 1300)) = None
   \<and> ((1400 < breakpoint (options (new_widget default_options (blank_page 1300))))
        = (1300 < breakpoint (options (new_widget default_options (blank_page 1300)))))
   \<and> isMobile_v100 (new_widget_v100 default_options_v100 (blank_page 1300)) = None
   \<and> ((1400 < breakpoint_v100
                 (options_v100 (new_widget_v100 default_options_v100 (blank_page 1300))))
        = (1300 < breakpoint_v100
                    (options_v100 (new_widget_v100 default_options_v100 (blank_page 1300)))))
   \<and> dom_writes (page (new_widget default_options (blank_page 1300)))
       < dom_writes (page (priv_resize (new_widget default_options (blank_page 1300))))
   \<and> (let t = priv_resize (at_width 1300 (new_widget default_options (blank_page 1300)));
           u = priv_resize (at_width 1400 t)
       in u = at_width 1400 t \<and> dom_writes (page u) = dom_writes (page t)
          \<and> elem_classes (page u) = elem_classes (page t)
          \<and> elem_style (page u) = elem_style (page t))
   \<and> dom_writes (page_v100 (new_widget_v100 default_options_v100 (blank_page 1300)))
       < dom_writes
           (page_v100 (priv_resizeLayout (new_widget_v100 default_options_v100 (blank_page 1300))))
   \<and> (let t = priv_resizeLayout
                 (at_width_v100 1300 (new_widget_v100 default_options_v100 (blank_page 1300)));
           u = priv_resizeLayout (at_width_v100 1400 t)
       in u = at_width_v100 1400 t \<and> dom_writes (page_v100 u) = dom_writes (page_v100 t)
          \<and> elem_classes (page_v100 u) = elem_classes (page_v100 t)
          \<and> elem_style (page_v100 u) = elem_style (page_v100 t))"
proof -
  have h1: "isMobile (new_widget default_options (blank_page 1300)) = None"
    by (simp add: new_widget_def)
  have h2: "(1400 < breakpoint (options (new_widget default_options (blank_page 1300))))
              = (1300 < breakpoint (options (new_widget default_options (blank_page 1300))))"
    by (simp add: new_widget_def)
  have h3: "isMobile_v100 (new_widget_v100 default_options_v100 (blank_page 1300)) = None"
    by (simp add: new_widget_v100_def)
  have h4: "(1400 < breakpoint_v100
                     (options_v100 (new_widget_v100 default_options_v100 (blank_page 1300))))
              = (1300 < breakpoint_v100
                     (options_v100 (new_widget_v100 default_options_v100 (blank_page 1300))))"
    by (simp add: new_widget_v100_def default_options_v100_def)
  from h1 h2 h3 h4
    first_evaluation_applies_then_idempotent
      [where s = "new_widget default_options (blank_page 1300)" and ?w2.0 = 1400
         and ?w1.0 = 1300 and r = "new_widget_v100 default_options_v100 (blank_page 1300)"
         and opts = default_options and opts' = default_options_v100 and p = "blank_page 1300"]
  show ?thesis
    by blast
qed

subsection \<open>What the mode applications of the earlier file write\<close>


lemma applyDesktopLayout_styles:
  "elem_style (page_v100 (priv_applyDesktopLayout s)) Navbar ''left'' = None"
  "elem_style (page_v100 (priv_applyDesktopLayout s)) Navbar ''width''
     = (if sidebar_v100 (options_v100 s) then None else Some (Lit ''100%''))"
  "elem_style (page_v100 (priv_applyDesktopLayout s)) Navbar ''position'' = None"
  "elem_style (page_v100 (priv_applyDesktopLayout s)) Navbtn ''display'' = Some (Lit ''none'')"
  "elem_style (page_v100 (priv_applyDesktopLayout s)) Overlay ''display'' = Some (Lit ''none'')"
  by (simp_all add: apply_defs_v100 set_prop_def toggleClass_def)

lemma created_fields_v100 [simp]:
  "options_v100 (priv_create_v100 opts p) = opts"
  "isMobile_v100 (priv_create_v100 opts p) = Some (window_width p < breakpoint_v100 opts)"
  "navbarOpen (priv_create_v100 opts p) = False"
  "navbarWidth (priv_create_v100 opts p) = navbar_outerWidth p"
  "resizeAnimationFrame_v100 (priv_create_v100 opts p) = None"
  "window_width (page_v100 (priv_create_v100 opts p)) = window_width p"
  "elem_fx (page_v100 (priv_create_v100 opts p)) = elem_fx p"
  "raf_pending (page_v100 (priv_create_v100 opts p)) = raf_pending p"
  "raf_next (page_v100 (priv_create_v100 opts p)) = raf_next p"
  "listeners (page_v100 (priv_create_v100 opts p)) = listeners p @ widget_listeners"
  by (simp_all add: priv_create_v100_def priv_initEvents_v100_def priv_on_v100_def
      on_page_v100_def priv_initWidget_def widget_listeners_def)

lemma unpend_fields_v100 [simp]:
  "options_v100 (on_page_v100 (\<lambda>p. p\<lparr>raf_pending := []\<rparr>) s) = options_v100 s"
  "isMobile_v100 (on_page_v100 (\<lambda>p. p\<lparr>raf_pending := []\<rparr>) s) = isMobile_v100 s"
  "navbarOpen (on_page_v100 (\<lambda>p. p\<lparr>raf_pending := []\<rparr>) s) = navbarOpen s"
  "navbarWidth (on_page_v100 (\<lambda>p. p\<lparr>raf_pending := []\<rparr>) s) = navbarWidth s"
  "window_width (page_v100 (on_page_v100 (\<lambda>p. p\<lparr>raf_pending := []\<rparr>) s))
     = window_width (page_v100 s)"
  "elem_classes (page_v100 (on_page_v100 (\<lambda>p. p\<lparr>raf_pending := []\<rparr>) s))
     = elem_classes (page_v100 s)"
  "elem_style (page_v100 (on_page_v100 (\<lambda>p. p\<lparr>raf_pending := []\<rparr>) s))
     = elem_style (page_v100 s)"
  "elem_fx (page_v100 (on_page_v100 (\<lambda>p. p\<lparr>raf_pending := []\<rparr>) s)) = elem_fx (page_v100 s)"
  by (simp_all add: on_page_v100_def)



lemma created_styles:
  "\<not> window_width p < breakpoint opts \<Longrightarrow>
   elem_style (page (priv_create opts p)) Navbtn ''display'' = Some (Lit ''none'')
   \<and> elem_style (page (priv_create opts p)) Overlay ''display'' = Some (Lit ''none'')
   \<and> elem_style (page (priv_create opts p)) Navbar ''width''
       = (if sidebar opts then Some (Px (max 0 (width opts))) else None)"
  by (simp add: priv_create_def priv_initEvents_def priv_on_def on_page_def priv_resize_def
      applyDesktop_styles applySidebar_styles)

lemma created_styles_v100:
  "\<not> window_width p < breakpoint_v100 opts \<Longrightarrow>
   elem_style (page_v100 (priv_create_v100 opts p)) Navbtn ''display'' = Some (Lit ''none'')
   \<and> elem_style (page_v100 (priv_create_v100 opts p)) Overlay ''display'' = Some (Lit ''none'')
   \<and> elem_style (page_v100 (priv_create_v100 opts p)) Navbar ''width''
       = (if sidebar_v100 opts then None else Some (Lit ''100%''))"
  by (simp add: priv_create_v100_def priv_initEvents_v100_def priv_on_v100_def on_page_v100_def
      priv_initWidget_def priv_resizeLayout_def applyDesktopLayout_styles)



subsection \<open>The presentation classes after a mode application\<close>

lemma apply_presentation:
  assumes "well_named (classes (options s))"
  shows "presentation_classes (priv_applyMobile s) = [mobile (classes (options s))]"
    and "presentation_classes (priv_applyDesktop s) = [desktop (classes (options s))]"
    and "presentation_classes (priv_applySidebar s) = [sidebar_class (classes (options s))]"
  using assms by (auto simp: presentation_classes_def well_named_def apply_defs)

lemma apply_presentation_v100:
  assumes "well_named_v100 (classes_v100 (options_v100 r))"
  shows "presentation_classes_v100 (priv_applyMobileLayout r)
           = (if sidebar_v100 (options_v100 r)
              then [layoutMobile (classes_v100 (options_v100 r)),
                    layoutSidebar (classes_v100 (options_v100 r))]
              else [layoutMobile (classes_v100 (options_v100 r))])"
    and "presentation_classes_v100 (priv_applyDesktopLayout r)
           = (if sidebar_v100 (options_v100 r)
              then [layoutDesktop (classes_v100 (options_v100 r)),
                    layoutSidebar (classes_v100 (options_v100 r))]
              else [layoutDesktop (classes_v100 (options_v100 r))])"
  using assms
  by (auto simp: presentation_classes_v100_def well_named_v100_def apply_defs_v100
      toggleClass_def toggle_elem_def)

text \<open>
  Why the class options have to be three different single names: with the mobile option
  set to the desktop class, \<^verbatim>\<open>_applyMobile\<close> adds the class and removes it again;
  and an option with white space in it is not one class but several.
\<close>

lemma option_with_space:
  "tokens ''layout-mobile nav'' = [''layout-mobile'', ''nav'']"
  "\<not> one_token ''layout-mobile nav''" "\<not> one_token '' ''" "\<not> one_token []"
  by (simp_all add: one_token_def tokens_def html_space_def)

lemma applyMobile_shared_name:
  "presentation_classes
     (priv_applyMobile
        (new_widget
           (default_options\<lparr>classes := (classes default_options)\<lparr>mobile := ''layout-desktop''\<rparr>\<rparr>)
           (blank_page 1000))) = []"
  by (simp add: presentation_classes_def apply_defs new_widget_def default_options_def
      blank_page_def)


text \<open>
  \<^bold>\<open>C1.\<close> As the specification states it, the property fails in the earlier file: with
  the sidebar option set,
  \<^verbatim>\<open>_applyDesktopLayout\<close> adds the desktop class and toggles the sidebar class on, so
  after the mode application of creation at 1400 pixels the root carries two of the
  three presentation classes.
\<close>

theorem sidebar_beside_desktop_v100:
  "well_named_v100 (classes_v100 default_options_v100)
   \<and> isMobile_v100
        (priv_create_v100 sidebar_options_v100 (blank_page 1400))
       = Some False
   \<and> presentation_classes_v100
        (priv_create_v100 sidebar_options_v100 (blank_page 1400))
       = [''layout-desktop'', ''layout-sidebar'']
   \<and> length (presentation_classes_v100
        (priv_create_v100 sidebar_options_v100 (blank_page 1400)))
       \<noteq> 1"
  by (simp add: priv_create_v100_def priv_initEvents_v100_def priv_on_v100_def
      priv_initWidget_def priv_resizeLayout_def presentation_classes_v100_def
      well_named_v100_def apply_defs_v100 toggleClass_def default_options_v100_def
      sidebar_options_v100_def blank_page_def)

text \<open>
  \<^bold>\<open>C1, as amended.\<close> In both files a layout evaluation at viewport width \<open>w\<close> leaves
  the controller in mobile mode iff \<open>w\<close> is below the breakpoint. For a well-formed
  configuration (the three class options are three different class names, each a single
  name without white space): in \<^verbatim>\<open>assets/layout.js\<close> each of the three mode
  applications, and so every evaluation that applies a mode, leaves exactly one
  presentation class on the root, the one of the mode applied; in the earlier file a
  mode application leaves exactly one of the mobile and desktop classes, and the
  sidebar class beside it iff the sidebar option is set.
\<close>

theorem mode_and_presentation_class:
  assumes "well_named (classes (options s))"
    and "well_named_v100 (classes_v100 (options_v100 r))"
  shows "isMobile (priv_resize (at_width w s)) = Some (w < breakpoint (options s))
         \<and> presentation_classes (priv_applyMobile s) = [mobile (classes (options s))]
         \<and> presentation_classes (priv_applyDesktop s) = [desktop (classes (options s))]
         \<and> presentation_classes (priv_applySidebar s) = [sidebar_class (classes (options s))]
         \<and> (isMobile s \<noteq> Some (w < breakpoint (options s)) \<longrightarrow>
             presentation_classes (priv_resize (at_width w s))
               = [if w < breakpoint (options s) then mobile (classes (options s))
                  else if sidebar (options s) then sidebar_class (classes (options s))
                  else desktop (classes (options s))])
         \<and> isMobile_v100 (priv_resizeLayout (at_width_v100 w r))
             = Some (w < breakpoint_v100 (options_v100 r))
         \<and> presentation_classes_v100 (priv_applyMobileLayout r)
             = (if sidebar_v100 (options_v100 r)
                then [layoutMobile (classes_v100 (options_v100 r)),
                      layoutSidebar (classes_v100 (options_v100 r))]
                else [layoutMobile (classes_v100 (options_v100 r))])
         \<and> presentation_classes_v100 (priv_applyDesktopLayout r)
             = (if sidebar_v100 (options_v100 r)
                then [layoutDesktop (classes_v100 (options_v100 r)),
                      layoutSidebar (classes_v100 (options_v100 r))]
                else [layoutDesktop (classes_v100 (options_v100 r))])"
proof -
  have a: "presentation_classes (priv_resize (at_width w s))
             = [if w < breakpoint (options s) then mobile (classes (options s))
                else if sidebar (options s) then sidebar_class (classes (options s))
                else desktop (classes (options s))]"
    if "isMobile s \<noteq> Some (w < breakpoint (options s))"
  proof -
    define t where "t = (at_width w s)\<lparr>isMobile := Some (w < breakpoint (options s))\<rparr>"
    have o: "options t = options s"
      by (simp add: t_def)
    have "priv_resize (at_width w s)
            = (if w < breakpoint (options s) then priv_applyMobile t
               else if sidebar (options s) then priv_applySidebar t else priv_applyDesktop t)"
      using that by (simp add: priv_resize_def t_def)
    then show ?thesis
      using apply_presentation [of t] assms(1) by (simp add: o)
  qed
  show ?thesis
    using a apply_presentation [OF assms(1)] apply_presentation_v100 [OF assms(2)] by simp
qed

theorem mode_and_presentation_class_witness:
  "well_named (classes (options (new_widget default_options (blank_page 1300))))
   \<and> well_named_v100
        (classes_v100 (options_v100 (new_widget_v100 default_options_v100 (blank_page 1300))))
   \<and> isMobile (new_widget default_options (blank_page 1300)) \<noteq> Some (1000 < (1200::int))
   \<and> isMobile (priv_resize (at_width 1000 (new_widget default_options (blank_page 1300))))
       = Some True
   \<and> presentation_classes (priv_applyMobile (new_widget default_options (blank_page 1300)))
       = [''layout-mobile'']
   \<and> presentation_classes (priv_applyDesktop (new_widget default_options (blank_page 1300)))
       = [''layout-desktop'']
   \<and> presentation_classes (priv_applySidebar (new_widget default_options (blank_page 1300)))
       = [''layout-sidebar'']
   \<and> presentation_classes
        (priv_resize (at_width 1000 (new_widget default_options (blank_page 1300))))
       = [''layout-mobile'']
   \<and> isMobile_v100
        (priv_resizeLayout
           (at_width_v100 1000 (new_widget_v100 default_options_v100 (blank_page 1300))))
       = Some True
   \<and> presentation_classes_v100
        (priv_applyMobileLayout (new_widget_v100 default_options_v100 (blank_page 1300)))
       = [''layout-mobile'']
   \<and> presentation_classes_v100
        (priv_applyDesktopLayout (new_widget_v100 default_options_v100 (blank_page 1300)))
       = [''layout-desktop'']"
proof -
  have h1: "well_named (classes (options (new_widget default_options (blank_page 1300))))"
    by (simp add: well_named_def new_widget_def default_options_def)
  have h2: "well_named_v100
        (classes_v100 (options_v100 (new_widget_v100 default_options_v100 (blank_page 1300))))"
    by (simp add: well_named_v100_def new_widget_v100_def default_options_v100_def)
  have h3: "isMobile (new_widget default_options (blank_page 1300)) \<noteq> Some (1000 < (1200::int))"
    by (simp add: new_widget_def)
  have o: "options (new_widget default_options (blank_page 1300)) = default_options"
    "options_v100 (new_widget_v100 default_options_v100 (blank_page 1300)) = default_options_v100"
    "classes default_options = \<lparr>desktop = ''layout-desktop'', mobile = ''layout-mobile'',
        sidebar_class = ''layout-sidebar'', active = ''active''\<rparr>"
    "classes_v100 default_options_v100
       = \<lparr>layoutDesktop = ''layout-desktop'', layoutMobile = ''layout-mobile'',
          layoutSidebar = ''layout-sidebar'', navbtnActive = ''active''\<rparr>"
    "sidebar_v100 default_options_v100 = False" "breakpoint_v100 default_options_v100 = 1200"
    by (simp_all add: new_widget_def new_widget_v100_def default_options_def
        default_options_v100_def)
  show ?thesis
    using h1 h2 h3 mode_and_presentation_class [OF h1 h2, of 1000]
    by (simp add: o)
qed


subsection \<open>The sidebar presentation\<close>

lemma presentation_member:
  "n \<in> set (presentation_classes s) \<Longrightarrow> n \<in> elem_classes (page s) Layout"
  unfolding presentation_classes_def Let_def by (simp only: set_filter) simp

lemma created_as_evaluation:
  "priv_create opts p
     = priv_resize
         (priv_on (El Overlay) ''click'' OnToggle
           (priv_on (El Navbtn) ''click'' OnToggle
             (priv_on Window ''resize'' OnResize (new_widget opts p))))"
  by (simp add: priv_create_def priv_initEvents_def new_widget_def)

lemma priv_on_fields [simp]:
  "options (priv_on tg ev h s) = options s"
  "isMobile (priv_on tg ev h s) = isMobile s"
  "isShown (priv_on tg ev h s) = isShown s"
  "window_width (page (priv_on tg ev h s)) = window_width (page s)"
  "elem_classes (page (priv_on tg ev h s)) = elem_classes (page s)"
  "elem_style (page (priv_on tg ev h s)) = elem_style (page s)"
  "dom_writes (page (priv_on tg ev h s)) = dom_writes (page s)"
  by (simp_all add: priv_on_def on_page_def)

lemma initEvents_presentation_v100:
  "presentation_classes_v100 (priv_initEvents_v100 s) = presentation_classes_v100 s"
  by (simp add: presentation_classes_v100_def priv_initEvents_v100_def priv_on_v100_def
      on_page_v100_def)

lemma initEvents_classes_v100 [simp]:
  "elem_classes (page_v100 (priv_initEvents_v100 s)) = elem_classes (page_v100 s)"
  by (simp add: priv_initEvents_v100_def priv_on_v100_def on_page_v100_def)

lemma applySidebar_class:
  "sidebar_named (classes (options s)) \<Longrightarrow>
   sidebar_class (classes (options s)) \<in> elem_classes (page (priv_applySidebar s)) Layout"
  by (simp add: sidebar_named_def apply_defs)

lemma applyDesktopLayout_sidebar_class:
  "sidebar_v100 (options_v100 s) \<Longrightarrow> one_token (layoutSidebar (classes_v100 (options_v100 s))) \<Longrightarrow>
   layoutSidebar (classes_v100 (options_v100 s))
     \<in> elem_classes (page_v100 (priv_applyDesktopLayout s)) Layout"
  by (simp add: apply_defs_v100 toggleClass_def)

text \<open>
  Outside these configurations: a negative width option is written as \<^verbatim>\<open>0px\<close>, and a
  sidebar option equal to the desktop option is added and removed again.
\<close>

lemma applySidebar_negative_width:
  "elem_style
     (page (priv_applySidebar (new_widget (sidebar_options\<lparr>width := - 5\<rparr>) (blank_page 1400))))
     Navbar ''width'' = Some (Px 0)"
  by (simp add: applySidebar_styles new_widget_def)

lemma applySidebar_shared_name:
  "''layout-desktop''
     \<notin> elem_classes
         (page (priv_applySidebar
            (new_widget
               (sidebar_options\<lparr>classes := (classes sidebar_options)
                                  \<lparr>sidebar_class := ''layout-desktop''\<rparr>\<rparr>)
               (blank_page 1400))))
         Layout"
  by (simp add: apply_defs new_widget_def sidebar_options_def default_options_def blank_page_def)

text \<open>
  \<^bold>\<open>C6.\<close> As the specification states it, the property fails in the earlier file,
  which has no width option: with the sidebar option set, creation at 1400 pixels
  (breakpoint 1200) applies \<^verbatim>\<open>_applyDesktopLayout\<close>, which clears the panel's inline
  width instead of fixing it.
\<close>

theorem sidebar_width_cleared_v100:
  "isMobile_v100 (priv_create_v100 sidebar_options_v100 (blank_page 1400)) = Some False
   \<and> elem_style (page_v100 (priv_create_v100 sidebar_options_v100 (blank_page 1400)))
        Navbar ''width'' = None"
  using created_styles_v100 [of "blank_page 1400" sidebar_options_v100]
  by (simp add: default_options_v100_def sidebar_options_v100_def)

text \<open>
  \<^bold>\<open>C6, as amended.\<close> With the sidebar option set and a viewport width not below the
  breakpoint, for a well-formed configuration (the width option not negative, the
  sidebar class option a single class name that is none of the names of the other two
  class options): in \<^verbatim>\<open>assets/layout.js\<close> creation, and every layout evaluation from a
  state that is not already non-mobile, leaves the sidebar class on the root, the
  panel's inline width at the width option in pixels, and the toggle control and the
  overlay with \<^verbatim>\<open>display: none\<close>. In the earlier file, with the sidebar class option a
  single class name, creation leaves the sidebar class on the root and hides the toggle
  control and the overlay, and the panel's inline width is cleared.
\<close>

theorem sidebar_layout_applied:
  assumes "sidebar opts" and "\<not> w < breakpoint opts" and "sidebar_named (classes opts)"
    and "0 \<le> width opts"
    and "sidebar_v100 opts'" and "\<not> w < breakpoint_v100 opts'"
    and "one_token (layoutSidebar (classes_v100 opts'))"
    and "window_width p = w"
  shows "(let s = priv_create opts p
          in isMobile s = Some False
             \<and> sidebar_class (classes opts) \<in> elem_classes (page s) Layout
             \<and> elem_style (page s) Navbar ''width'' = Some (Px (width opts))
             \<and> elem_style (page s) Navbtn ''display'' = Some (Lit ''none'')
             \<and> elem_style (page s) Overlay ''display'' = Some (Lit ''none''))
         \<and> (options t = opts \<and> isMobile t \<noteq> Some False \<longrightarrow>
             (let s = priv_resize (at_width w t)
              in isMobile s = Some False
                 \<and> sidebar_class (classes opts) \<in> elem_classes (page s) Layout
                 \<and> elem_style (page s) Navbar ''width'' = Some (Px (width opts))
                 \<and> elem_style (page s) Navbtn ''display'' = Some (Lit ''none'')
                 \<and> elem_style (page s) Overlay ''display'' = Some (Lit ''none'')))
         \<and> (let r = priv_create_v100 opts' p
             in isMobile_v100 r = Some False
                \<and> layoutSidebar (classes_v100 opts') \<in> elem_classes (page_v100 r) Layout
                \<and> elem_style (page_v100 r) Navbar ''width'' = None
                \<and> elem_style (page_v100 r) Navbtn ''display'' = Some (Lit ''none'')
                \<and> elem_style (page_v100 r) Overlay ''display'' = Some (Lit ''none''))"
proof -
  have ev: "isMobile (priv_resize t) = Some False
            \<and> sidebar_class (classes opts) \<in> elem_classes (page (priv_resize t)) Layout
            \<and> elem_style (page (priv_resize t)) Navbar ''width'' = Some (Px (width opts))
            \<and> elem_style (page (priv_resize t)) Navbtn ''display'' = Some (Lit ''none'')
            \<and> elem_style (page (priv_resize t)) Overlay ''display'' = Some (Lit ''none'')"
    if t: "options t = opts" "isMobile t \<noteq> Some False" "window_width (page t) = w" for t
  proof -
    define u where "u = t\<lparr>isMobile := Some False\<rparr>"
    have o: "options u = opts" and m: "isMobile u = Some False"
      using t(1) by (simp_all add: u_def)
    have "priv_resize t = priv_applySidebar u"
      using t assms(1,2) by (simp add: priv_resize_def u_def)
    then show ?thesis
      using applySidebar_class [of u] assms(3,4) o m
      by (simp add: applySidebar_styles)
  qed
  define i where "i = priv_on (El Overlay) ''click'' OnToggle
           (priv_on (El Navbtn) ''click'' OnToggle
             (priv_on Window ''resize'' OnResize (new_widget opts p)))"
  have i: "options i = opts" "isMobile i \<noteq> Some False" "window_width (page i) = w"
    using assms(8) by (simp_all add: i_def) (simp_all add: new_widget_def)
  have cr: "isMobile (priv_create opts p) = Some False
            \<and> sidebar_class (classes opts) \<in> elem_classes (page (priv_create opts p)) Layout
            \<and> elem_style (page (priv_create opts p)) Navbar ''width'' = Some (Px (width opts))
            \<and> elem_style (page (priv_create opts p)) Navbtn ''display'' = Some (Lit ''none'')
            \<and> elem_style (page (priv_create opts p)) Overlay ''display'' = Some (Lit ''none'')"
    using ev [OF i] unfolding created_as_evaluation i_def .
  define j where "j = (new_widget_v100 opts' p)\<lparr>navbarOpen := False,
                         navbarWidth := navbar_outerWidth p\<rparr>"
  define v where "v = j\<lparr>isMobile_v100 := Some False\<rparr>"
  have c1: "priv_create_v100 opts' p = priv_initEvents_v100 (priv_resizeLayout j)"
    by (simp add: priv_create_v100_def priv_initWidget_def j_def new_widget_v100_def)
  have "priv_resizeLayout j = priv_applyDesktopLayout v"
    using assms(6,8) by (simp add: priv_resizeLayout_def v_def j_def new_widget_v100_def)
  moreover have "options_v100 v = opts'"
    by (simp add: v_def j_def new_widget_v100_def)
  ultimately have pv: "layoutSidebar (classes_v100 opts')
                         \<in> elem_classes (page_v100 (priv_create_v100 opts' p)) Layout"
    using applyDesktopLayout_sidebar_class [of v] assms(5,7) by (simp add: c1)
  have cv: "isMobile_v100 (priv_create_v100 opts' p) = Some False
            \<and> elem_style (page_v100 (priv_create_v100 opts' p)) Navbar ''width'' = None
            \<and> elem_style (page_v100 (priv_create_v100 opts' p)) Navbtn ''display''
                = Some (Lit ''none'')
            \<and> elem_style (page_v100 (priv_create_v100 opts' p)) Overlay ''display''
                = Some (Lit ''none'')"
    using created_styles_v100 [of p opts'] assms(5,6,8) by simp
  have at: "options (at_width w t) = opts \<and> isMobile (at_width w t) \<noteq> Some False
            \<and> window_width (page (at_width w t)) = w"
    if "options t = opts \<and> isMobile t \<noteq> Some False"
    using that by simp
  show ?thesis
    using ev [of "at_width w t"] at cr pv cv unfolding Let_def by blast
qed

text \<open>
  The theorem at the default options with the sidebar option set, on an empty page 1400
  pixels wide.
\<close>

theorem sidebar_layout_applied_witness:
  "sidebar sidebar_options \<and> \<not> 1400 < breakpoint sidebar_options
   \<and> sidebar_named (classes sidebar_options) \<and> 0 \<le> width sidebar_options
   \<and> sidebar_v100 sidebar_options_v100 \<and> \<not> 1400 < breakpoint_v100 sidebar_options_v100
   \<and> one_token (layoutSidebar (classes_v100 sidebar_options_v100))
   \<and> window_width (blank_page 1400) = 1400
   \<and> options (new_widget sidebar_options (blank_page 1400)) = sidebar_options
   \<and> isMobile (new_widget sidebar_options (blank_page 1400)) \<noteq> Some False
   \<and> sidebar_class (classes sidebar_options) = ''layout-sidebar''
   \<and> layoutSidebar (classes_v100 sidebar_options_v100) = ''layout-sidebar''
   \<and> width sidebar_options = 300
   \<and> (let s = priv_create sidebar_options (blank_page 1400)
       in isMobile s = Some False
          \<and> sidebar_class (classes sidebar_options) \<in> elem_classes (page s) Layout
          \<and> elem_style (page s) Navbar ''width'' = Some (Px (width sidebar_options))
          \<and> elem_style (page s) Navbtn ''display'' = Some (Lit ''none'')
          \<and> elem_style (page s) Overlay ''display'' = Some (Lit ''none''))
   \<and> (let s = priv_resize (at_width 1400 (new_widget sidebar_options (blank_page 1400)))
       in isMobile s = Some False
          \<and> sidebar_class (classes sidebar_options) \<in> elem_classes (page s) Layout
          \<and> elem_style (page s) Navbar ''width'' = Some (Px (width sidebar_options))
          \<and> elem_style (page s) Navbtn ''display'' = Some (Lit ''none'')
          \<and> elem_style (page s) Overlay ''display'' = Some (Lit ''none''))
   \<and> (let r = priv_create_v100 sidebar_options_v100 (blank_page 1400)
       in isMobile_v100 r = Some False
          \<and> layoutSidebar (classes_v100 sidebar_options_v100)
              \<in> elem_classes (page_v100 r) Layout
          \<and> elem_style (page_v100 r) Navbar ''width'' = None
          \<and> elem_style (page_v100 r) Navbtn ''display'' = Some (Lit ''none'')
          \<and> elem_style (page_v100 r) Overlay ''display'' = Some (Lit ''none''))"
proof -
  have h: "sidebar sidebar_options" "\<not> 1400 < breakpoint sidebar_options"
    "sidebar_named (classes sidebar_options)" "0 \<le> width sidebar_options"
    "sidebar_v100 sidebar_options_v100" "\<not> 1400 < breakpoint_v100 sidebar_options_v100"
    "one_token (layoutSidebar (classes_v100 sidebar_options_v100))"
    "window_width (blank_page 1400) = 1400"
    by (simp_all add: sidebar_options_def sidebar_options_v100_def default_options_def
        default_options_v100_def sidebar_named_def blank_page_def)
  have t: "options (new_widget sidebar_options (blank_page 1400)) = sidebar_options"
    "isMobile (new_widget sidebar_options (blank_page 1400)) \<noteq> Some False"
    by (simp_all add: new_widget_def)
  have v: "sidebar_class (classes sidebar_options) = ''layout-sidebar''"
    "layoutSidebar (classes_v100 sidebar_options_v100) = ''layout-sidebar''"
    "width sidebar_options = 300"
    by (simp_all add: sidebar_options_def sidebar_options_v100_def default_options_def
        default_options_v100_def)
  from h t v
    sidebar_layout_applied [OF h, where t = "new_widget sidebar_options (blank_page 1400)"]
  show ?thesis
    by blast
qed

subsection \<open>Clicks outside mobile mode\<close>

lemma open_presentation:
  assumes "tl (elem_fx (page s) Navbar) = []" and "tl (elem_fx (page s) Overlay) = []"
  shows "elem_classes (page (priv_open s)) Navbtn
           = elem_classes (page s) Navbtn \<union> set (tokens (active (classes (options s))))"
    and "elem_style (page (priv_open s)) Overlay ''display'' = None"
  using open_styles(2) [OF assms]
  by (simp_all add: priv_open_def in_order_def on_page_def fx_defs Let_def)

lemma openNavbar_presentation:
  assumes "tl (elem_fx (page_v100 s) Navbar) = []" and "tl (elem_fx (page_v100 s) Overlay) = []"
  shows "elem_classes (page_v100 (priv_openNavbar s)) Navbtn
           = elem_classes (page_v100 s) Navbtn
             \<union> set (tokens (navbtnActive (classes_v100 (options_v100 s))))"
    and "elem_style (page_v100 (priv_openNavbar s)) Overlay ''display'' = None"
  using stop_then_enqueue_style
      [of "enqueue Navbar
             (Animate ''left'' 0 (duration_v100 (options_v100 s)) (easing_v100 (options_v100 s)))
             (stop Navbar
                (addClass Navbtn (navbtnActive (classes_v100 (options_v100 s))) (page_v100 s)))"
          Overlay "FadeIn (duration_v100 (options_v100 s)) (easing_v100 (options_v100 s))"]
    assms
  by (simp_all add: priv_openNavbar_def in_order_v100_def on_page_v100_def fx_defs Let_def)

lemma resize_navbtn_classes [simp]:
  "elem_classes (page (priv_resize s)) Navbtn = elem_classes (page s) Navbtn"
  by (simp add: priv_resize_def apply_defs)

lemma resizeLayout_navbtn_classes [simp]:
  "elem_classes (page_v100 (priv_resizeLayout s)) Navbtn = elem_classes (page_v100 s) Navbtn"
  by (simp add: priv_resizeLayout_def apply_defs_v100 toggleClass_def toggle_elem_def)

lemma created_navbtn_classes [simp]:
  "elem_classes (page (priv_create opts p)) Navbtn = elem_classes p Navbtn"
  "elem_classes (page_v100 (priv_create_v100 opts' p)) Navbtn = elem_classes p Navbtn"
  by (simp_all add: created_as_evaluation priv_create_v100_def priv_initWidget_def
      priv_initEvents_v100_def priv_on_v100_def on_page_v100_def new_widget_def)

lemma click_toggles_v100:
  "consistent_v100 opts s \<Longrightarrow> e = Navbtn \<or> e = Overlay \<Longrightarrow>
   step_v100 (Click_v100 e) s = priv_onToggle_v100 s"
  by (auto simp: consistent_v100_def fire_click_v100)

lemma consistent_queues_v100:
  "consistent_v100 opts s \<Longrightarrow>
   tl (elem_fx (page_v100 s) Navbar) = [] \<and> tl (elem_fx (page_v100 s) Overlay) = []"
  by (auto simp: consistent_v100_def fx_ok_v100_def)

text \<open>
  \<^bold>\<open>C9.\<close> Activating the toggle control or the overlay outside mobile mode should
  change nothing; the code does otherwise. The default configuration is created on a
  viewport 1400 pixels wide, so the controller is in non-mobile mode, closed, the toggle
  control without the active class, the overlay hidden. A click delivered to the toggle
  control (or to the overlay) runs \<^verbatim>\<open>_onToggle\<close>, which calls \<^verbatim>\<open>_open\<close> without
  looking at the mode: the state becomes open, the toggle control gets the active class,
  the panel is animated to offset 0 and the overlay is shown and faded in, while the
  mode stays non-mobile. The public \<^verbatim>\<open>open()\<close> in the same state does nothing. The
  earlier file behaves the same way.
\<close>

theorem click_opens_in_non_mobile_mode:
  "(let s0 = priv_create default_options (blank_page 1400); s1 = step (Click Navbtn) s0
    in isMobile s0 = Some False \<and> isShown s0 = None
       \<and> elem_classes (page s0) Navbtn = {}
       \<and> elem_fx (page s0) Navbar = [] \<and> elem_fx (page s0) Overlay = []
       \<and> elem_style (page s0) Overlay ''display'' = Some (Lit ''none'')
       \<and> public_open s0 = s0
       \<and> step (Click Overlay) s0 = s1
       \<and> isMobile s1 = Some False \<and> isShown s1 = Some True
       \<and> elem_classes (page s1) Navbtn = {''active''}
       \<and> elem_fx (page s1) Navbar = [Animate ''left'' 0 300 ''linear'']
       \<and> elem_fx (page s1) Overlay = [FadeIn 300 ''linear'']
       \<and> elem_style (page s1) Overlay ''display'' = None)
   \<and> (let r0 = priv_create_v100 default_options_v100 (blank_page 1400);
           r1 = step_v100 (Click_v100 Navbtn) r0
       in isMobile_v100 r0 = Some False \<and> navbarOpen r0 = False
          \<and> elem_classes (page_v100 r0) Navbtn = {}
          \<and> elem_style (page_v100 r0) Overlay ''display'' = Some (Lit ''none'')
          \<and> isMobile_v100 r1 = Some False \<and> navbarOpen r1 = True
          \<and> elem_classes (page_v100 r1) Navbtn = {''active''}
          \<and> elem_fx (page_v100 r1) Navbar = [Animate ''left'' 0 300 ''linear'']
          \<and> elem_fx (page_v100 r1) Overlay = [FadeIn 300 ''linear'']
          \<and> elem_style (page_v100 r1) Overlay ''display'' = None)"
proof -
  define s0 where "s0 = priv_create default_options (blank_page 1400)"
  have c: "consistent default_options s0"
    unfolding s0_def by (rule create_consistent) simp
  have s0: "isMobile s0 = Some False" "isShown s0 = None" "elem_classes (page s0) Navbtn = {}"
    "elem_fx (page s0) Navbar = []" "elem_fx (page s0) Overlay = []"
    "elem_style (page s0) Overlay ''display'' = Some (Lit ''none'')"
    "options s0 = default_options"
    using created_styles [of "blank_page 1400" default_options]
    by (simp_all add: s0_def) (simp_all add: blank_page_def)
  have g: "public_open s0 = s0"
    using s0(1) by (simp add: public_open_def truthy_def)
  have 1: "step (Click Navbtn) s0 = priv_open s0" "step (Click Overlay) s0 = priv_open s0"
    using click_toggles [OF c] s0(2) by (simp_all add: priv_onToggle_def truthy_def)
  have s1: "isMobile (priv_open s0) = Some False" "isShown (priv_open s0) = Some True"
    "elem_classes (page (priv_open s0)) Navbtn = {''active''}"
    "elem_fx (page (priv_open s0)) Navbar = [Animate ''left'' 0 300 ''linear'']"
    "elem_fx (page (priv_open s0)) Overlay = [FadeIn 300 ''linear'']"
    "elem_style (page (priv_open s0)) Overlay ''display'' = None"
    using s0 open_presentation [of s0] by (simp_all add: default_options_def)
  define r0 where "r0 = priv_create_v100 default_options_v100 (blank_page 1400)"
  have c': "consistent_v100 default_options_v100 r0"
    unfolding r0_def by (rule create_consistent_v100) simp
  have r0: "isMobile_v100 r0 = Some False" "navbarOpen r0 = False"
    "elem_classes (page_v100 r0) Navbtn = {}"
    "elem_fx (page_v100 r0) Navbar = []" "elem_fx (page_v100 r0) Overlay = []"
    "elem_style (page_v100 r0) Overlay ''display'' = Some (Lit ''none'')"
    "options_v100 r0 = default_options_v100"
    using created_styles_v100 [of "blank_page 1400" default_options_v100]
    by (simp_all add: r0_def) (simp_all add: blank_page_def default_options_v100_def)
  have 2: "step_v100 (Click_v100 Navbtn) r0 = priv_openNavbar r0"
    using click_toggles_v100 [OF c'] r0(2) by (simp add: priv_onToggle_v100_def)
  have r1: "isMobile_v100 (priv_openNavbar r0) = Some False" "navbarOpen (priv_openNavbar r0) = True"
    "elem_classes (page_v100 (priv_openNavbar r0)) Navbtn = {''active''}"
    "elem_fx (page_v100 (priv_openNavbar r0)) Navbar = [Animate ''left'' 0 300 ''linear'']"
    "elem_fx (page_v100 (priv_openNavbar r0)) Overlay = [FadeIn 300 ''linear'']"
    "elem_style (page_v100 (priv_openNavbar r0)) Overlay ''display'' = None"
    using r0 openNavbar_presentation [of r0] by (simp_all add: default_options_v100_def)
  show ?thesis
    unfolding Let_def s0_def [symmetric] r0_def [symmetric] 1 2
    using s0 g s1 r0 r1 by simp
qed


subsection \<open>Teardown\<close>

text \<open>
  What \<^verbatim>\<open>destroy\<close> does reset: the presentation classes on the root, the active class
  on the toggle control, and the inline properties the mode applications write.
\<close>

lemma run_three: "run [a, b, c] s = step c (step b (step a s))"
  by (simp add: run_def)

lemma destroy_resets:
  "well_named (classes (options s)) \<Longrightarrow> presentation_classes (destroy s) = []"
  "one_token (active (classes (options s))) \<Longrightarrow>
   active (classes (options s)) \<notin> elem_classes (page (destroy s)) Navbtn"
  "elem_style (page (destroy s)) Navbtn ''display'' = None"
  "k \<in> {''position'', ''z-index'', ''top'', ''right'', ''bottom'', ''left'', ''width''} \<Longrightarrow>
   elem_style (page (destroy s)) Navbar k = None"
  "k \<in> {''position'', ''z-index'', ''top'', ''right'', ''bottom'', ''left'', ''display''} \<Longrightarrow>
   elem_style (page (destroy s)) Overlay k = None"
  by (auto simp: presentation_classes_def destroy_def in_order_def on_page_def set_prop_def
      well_named_def Let_def)

lemma destroy_more_fields [simp]:
  "elem_fx (page (destroy s)) = elem_fx (page s)"
  "elem_classes (page (destroy s)) Navbtn
     = elem_classes (page s) Navbtn - set (tokens (active (classes (options s))))"
  by (simp_all add: destroy_def in_order_def on_page_def Let_def)

text \<open>
  \<^bold>\<open>C7.\<close> After \<^verbatim>\<open>destroy()\<close> the classes and inline styles should be gone and the
  event bindings detached; the code does the first only. The default configuration is created on a
  viewport 1000 pixels wide and \<^verbatim>\<open>destroy()\<close> is called. The classes and inline styles
  are reset, but the three handlers registered by \<^verbatim>\<open>_initEvents\<close> are still
  registered: the method replaces the widget factory's \<^verbatim>\<open>destroy\<close>, which is what
  would detach them, and does not call it. So a click on the toggle control after
  \<^verbatim>\<open>destroy()\<close> opens the navigation again (active class, panel animation, overlay
  fade-in), and a resize to 1400 pixels followed by a frame puts the desktop class back
  on the root and hides the toggle control. Moreover an animation in flight is not
  stopped: opened by a click and destroyed at once, the panel gets \<^verbatim>\<open>left: 0px\<close>
  written when the animation ends.
\<close>

theorem destroy_keeps_handlers:
  "(let s = priv_create default_options (blank_page 1000);
        d = destroy s;
        c = step (Click Navbtn) d;
        z = run [Resize 1400, Frame] d;
        a = run [Click Navbtn, CallDestroy, FxDone Navbar] s
    in listeners (page s) = widget_listeners
       \<and> presentation_classes s = [''layout-mobile'']
       \<and> presentation_classes d = []
       \<and> elem_style (page d) Navbar ''left'' = None
       \<and> listeners (page d) = widget_listeners
       \<and> isShown c = Some True
       \<and> elem_classes (page c) Navbtn = {''active''}
       \<and> elem_fx (page c) Navbar = [Animate ''left'' 0 300 ''linear'']
       \<and> elem_style (page c) Overlay ''display'' = None
       \<and> presentation_classes z = [''layout-desktop'']
       \<and> elem_style (page z) Navbtn ''display'' = Some (Lit ''none'')
       \<and> elem_style (page a) Navbar ''left'' = Some (Px 0))"
proof -
  define s where "s = priv_create default_options (blank_page 1000)"
  define d where "d = destroy s"
  have wn: "well_named (classes default_options)"
    by (simp add: well_named_def default_options_def)
  have cs: "consistent default_options s"
    unfolding s_def by (rule create_consistent) simp
  have cd: "consistent default_options d"
    unfolding d_def using cs by (rule destroy_consistent)
  have ls: "listeners (page s) = widget_listeners" and ld: "listeners (page d) = widget_listeners"
    using cs cd by (simp_all add: consistent_def)
  define i where "i = priv_on (El Overlay) ''click'' OnToggle
           (priv_on (El Navbtn) ''click'' OnToggle
             (priv_on Window ''resize'' OnResize (new_widget default_options (blank_page 1000))))"
  have "priv_resize i = priv_applyMobile (i\<lparr>isMobile := Some True\<rparr>)"
    by (simp add: priv_resize_def i_def) (simp add: new_widget_def)
  moreover have "options (i\<lparr>isMobile := Some True\<rparr>) = default_options"
    by (simp add: i_def new_widget_def)
  ultimately have ps: "presentation_classes s = [''layout-mobile'']"
    using apply_presentation(1) [of "i\<lparr>isMobile := Some True\<rparr>"] wn
    by (simp add: s_def created_as_evaluation i_def [symmetric]) (simp add: default_options_def)
  have s: "isMobile s = Some True" "isShown s = None" "options s = default_options"
    "elem_classes (page s) Navbtn = {}" "elem_fx (page s) Navbar = []"
    "elem_fx (page s) Overlay = []"
    by (simp_all add: s_def) (simp_all add: blank_page_def)
  have d: "presentation_classes d = []" "elem_style (page d) Navbar ''left'' = None"
    "isMobile d = Some True" "isShown d = None" "options d = default_options"
    "elem_classes (page d) Navbtn = {}" "elem_fx (page d) Navbar = []"
    "elem_fx (page d) Overlay = []"
    using s wn by (simp_all add: d_def destroy_resets)
  have 1: "step (Click Navbtn) d = priv_open d"
    using click_toggles [OF cd] d(4) by (simp add: priv_onToggle_def truthy_def)
  have c: "isShown (priv_open d) = Some True"
    "elem_classes (page (priv_open d)) Navbtn = {''active''}"
    "elem_fx (page (priv_open d)) Navbar = [Animate ''left'' 0 300 ''linear'']"
    "elem_style (page (priv_open d)) Overlay ''display'' = None"
    using d open_presentation [of d] by (simp_all add: default_options_def)
  define x where "x = on_page (\<lambda>p. p\<lparr>raf_pending := []\<rparr>) (priv_onResize (at_width 1400 d))"
  have x: "isMobile x = Some True" "options x = default_options" "window_width (page x) = 1400"
    using d by (simp_all add: x_def)
  have "run [Resize 1400, Frame] d = priv_resize x"
    unfolding x_def using cd by (rule resize_then_frame)
  also have "\<dots> = priv_applyDesktop (x\<lparr>isMobile := Some False\<rparr>)"
    using x by (simp add: priv_resize_def)
  finally have z: "presentation_classes (run [Resize 1400, Frame] d) = [''layout-desktop'']"
    "elem_style (page (run [Resize 1400, Frame] d)) Navbtn ''display'' = Some (Lit ''none'')"
    using apply_presentation(2) [of "x\<lparr>isMobile := Some False\<rparr>"] wn x
    by (simp_all add: applyDesktop_styles) (simp add: default_options_def)
  have 2: "step (Click Navbtn) s = priv_open s"
    using click_toggles [OF cs] s(2) by (simp add: priv_onToggle_def truthy_def)
  have "run [Click Navbtn, CallDestroy, FxDone Navbar] s
          = on_page (fx_done Navbar) (destroy (priv_open s))"
    unfolding run_three 2 by simp
  moreover have "elem_fx (page (destroy (priv_open s))) Navbar = [Animate ''left'' 0 300 ''linear'']"
    using s by (simp add: default_options_def)
  ultimately have a: "elem_style (page (run [Click Navbtn, CallDestroy, FxDone Navbar] s)) Navbar
                        ''left'' = Some (Px 0)"
    by (simp add: on_page_def fx_done_def)
  show ?thesis
    unfolding Let_def s_def [symmetric] d_def [symmetric] 1
    using ls ps d(1,2) ld c z a by simp
qed

end
